theory Spec2Isabelle
  imports Complex_Main "HOL-Library.Char_ord" "HOL-Library.List_Lexorder"
begin

section \<open>Text\<close>

text \<open>
  The audit script works on Python \<open>str\<close> values. They are modelled as HOL strings, whose
  characters are the code points 0..255; the character classes below are Python's for
  that range (\<open>str.isspace\<close>, \<open>str.isalnum\<close>, \<open>str.lower\<close>). Text with code points
  above 255 is outside the model.
\<close>

definition code :: "char \<Rightarrow> nat" where
  "code c = of_char c"

text \<open>\<open>str.isspace\<close>, which is also the class \<open>\s\<close> of \<open>re\<close> on \<open>str\<close> patterns.\<close>

definition is_space :: "char \<Rightarrow> bool" where
  "is_space c = (let n = code c in
     (9 \<le> n \<and> n \<le> 13) \<or> (28 \<le> n \<and> n \<le> 32) \<or> n = 133 \<or> n = 160)"

text \<open>The class \<open>[A-Za-z0-9]\<close>.\<close>

definition is_alnum_ascii :: "char \<Rightarrow> bool" where
  "is_alnum_ascii c = (let n = code c in
     (48 \<le> n \<and> n \<le> 57) \<or> (65 \<le> n \<and> n \<le> 90) \<or> (97 \<le> n \<and> n \<le> 122))"

text \<open>The class \<open>\w\<close> that decides \<open>\b\<close>: \<open>str.isalnum\<close> or an underscore.\<close>

definition is_word :: "char \<Rightarrow> bool" where
  "is_word c = (let n = code c in
     is_alnum_ascii c \<or> n = 95 \<or> n = 170 \<or> n = 178 \<or> n = 179 \<or> n = 181 \<or> n = 185 \<or>
     n = 186 \<or> (188 \<le> n \<and> n \<le> 190) \<or> (192 \<le> n \<and> n \<le> 214) \<or>
     (216 \<le> n \<and> n \<le> 246) \<or> (248 \<le> n \<and> n \<le> 255))"

text \<open>\<open>str.lower\<close> on one character.\<close>

definition lower_char :: "char \<Rightarrow> char" where
  "lower_char c = (let n = code c in
     if (65 \<le> n \<and> n \<le> 90) \<or> (192 \<le> n \<and> n \<le> 222 \<and> n \<noteq> 215)
     then char_of (n + 32) else c)"

definition lower :: "string \<Rightarrow> string" where
  "lower s = map lower_char s"

text \<open>\<open>str.strip()\<close> with no argument.\<close>

definition strip :: "string \<Rightarrow> string" where
  "strip s = rev (dropWhile is_space (rev (dropWhile is_space s)))"

text \<open>\<open>s.split(c)\<close> for a one-character separator: never empty, keeps empty fields.\<close>

fun split_on :: "char \<Rightarrow> string \<Rightarrow> string list" where
  "split_on c [] = [[]]"
| "split_on c (x # xs) =
     (if x = c then [] # split_on c xs
      else (case split_on c xs of
              [] \<Rightarrow> [[x]]
            | h # t \<Rightarrow> (x # h) # t))"

text \<open>\<open>sep.join(xs)\<close>.\<close>

fun join :: "string \<Rightarrow> string list \<Rightarrow> string" where
  "join sep [] = []"
| "join sep [x] = x"
| "join sep (x # y # ys) = x @ sep @ join sep (y # ys)"

definition newline :: char where
  "newline = char_of (10 :: nat)"

text \<open>\<open>str(n)\<close> for a natural number, as an f-string prints a count or a line number.\<close>

definition digit_char :: "nat \<Rightarrow> char" where
  "digit_char d = char_of (48 + d)"

function str_nat :: "nat \<Rightarrow> string" where
  "str_nat n = (if n < 10 then [digit_char n] else str_nat (n div 10) @ [digit_char (n mod 10)])"
  by pat_completeness auto
termination
  by (relation "measure id") auto

section \<open>Regular expressions\<close>

text \<open>
  The fragment of Python's \<open>re\<close> that the script's patterns use, with the backtracking
  order of \<open>re\<close>: a run returns every way the expression can match at the current
  position, the preferred way first. A state is the groups captured so far, the character
  before the current position (\<open>None\<close> at the start of the string) and the rest of the
  input.
\<close>

datatype rx =
    Eps
  | Chr char
  | Cls "(char \<times> char) list"
  | NotChr char
  | Dot
  | Space
  | Bol
  | WordB
  | Seq rx rx
  | Alt rx rx
  | Star rx
  | Lazy rx
  | Grp nat rx

type_synonym mstate = "(nat \<times> string) list \<times> char option \<times> string"

definition one_char :: "(char \<Rightarrow> bool) \<Rightarrow> mstate \<Rightarrow> mstate list" where
  "one_char p st = (case st of (caps, prev, rest) \<Rightarrow>
     (case rest of
        [] \<Rightarrow> []
      | c # cs \<Rightarrow> if p c then [(caps, Some c, cs)] else []))"

definition in_ranges :: "(char \<times> char) list \<Rightarrow> char \<Rightarrow> bool" where
  "in_ranges rs c = list_ex (\<lambda>(lo, hi). code lo \<le> code c \<and> code c \<le> code hi) rs"

text \<open>
  With \<open>re.IGNORECASE\<close> a literal or a class matches a character when it matches the
  character or its other case; below code point 256 the other case of an ASCII letter
  is an ASCII letter.
\<close>

definition upper_ascii :: "char \<Rightarrow> char" where
  "upper_ascii c = (let n = code c in if 97 \<le> n \<and> n \<le> 122 then char_of (n - 32) else c)"

definition lower_ascii :: "char \<Rightarrow> char" where
  "lower_ascii c = (let n = code c in if 65 \<le> n \<and> n \<le> 90 then char_of (n + 32) else c)"

definition chr_matches :: "bool \<Rightarrow> char \<Rightarrow> char \<Rightarrow> bool" where
  "chr_matches ic p c = (if ic then lower_ascii c = lower_ascii p else c = p)"

definition cls_matches :: "bool \<Rightarrow> (char \<times> char) list \<Rightarrow> char \<Rightarrow> bool" where
  "cls_matches ic rs c =
     (if ic then in_ranges rs c \<or> in_ranges rs (lower_ascii c) \<or> in_ranges rs (upper_ascii c)
      else in_ranges rs c)"

definition shorter :: "mstate \<Rightarrow> mstate \<Rightarrow> bool" where
  "shorter st st' = (length (snd (snd st')) < length (snd (snd st)))"

text \<open>
  A greedy repetition tries one more round of its body before it stops; a lazy one
  stops first. A round that consumes nothing is not repeated. The counter starts at the
  length of the input, which no repetition can exceed.
\<close>

primrec star_greedy :: "(mstate \<Rightarrow> mstate list) \<Rightarrow> nat \<Rightarrow> mstate \<Rightarrow> mstate list" where
  "star_greedy f 0 st = [st]"
| "star_greedy f (Suc n) st =
     concat (map (star_greedy f n) (filter (shorter st) (f st))) @ [st]"

primrec star_lazy :: "(mstate \<Rightarrow> mstate list) \<Rightarrow> nat \<Rightarrow> mstate \<Rightarrow> mstate list" where
  "star_lazy f 0 st = [st]"
| "star_lazy f (Suc n) st =
     st # concat (map (star_lazy f n) (filter (shorter st) (f st)))"

definition at_word_boundary :: "mstate \<Rightarrow> bool" where
  "at_word_boundary st = (case st of (caps, prev, rest) \<Rightarrow>
     (case prev of None \<Rightarrow> False | Some p \<Rightarrow> is_word p) \<noteq>
     (case rest of [] \<Rightarrow> False | c # cs \<Rightarrow> is_word c))"

definition capture :: "nat \<Rightarrow> mstate \<Rightarrow> mstate \<Rightarrow> mstate" where
  "capture k st st' = (case st' of (caps', prev', rest') \<Rightarrow>
     ((k, take (length (snd (snd st)) - length rest') (snd (snd st))) # caps', prev', rest'))"

primrec rx_run :: "bool \<Rightarrow> rx \<Rightarrow> mstate \<Rightarrow> mstate list" where
  "rx_run ic Eps st = [st]"
| "rx_run ic (Chr p) st = one_char (chr_matches ic p) st"
| "rx_run ic (Cls rs) st = one_char (cls_matches ic rs) st"
| "rx_run ic (NotChr p) st = one_char (\<lambda>c. \<not> chr_matches ic p c) st"
| "rx_run ic Dot st = one_char (\<lambda>c. c \<noteq> newline) st"
| "rx_run ic Space st = one_char is_space st"
| "rx_run ic Bol st = (if fst (snd st) = None then [st] else [])"
| "rx_run ic WordB st = (if at_word_boundary st then [st] else [])"
| "rx_run ic (Seq a b) st = concat (map (rx_run ic b) (rx_run ic a st))"
| "rx_run ic (Alt a b) st = rx_run ic a st @ rx_run ic b st"
| "rx_run ic (Star a) st = star_greedy (rx_run ic a) (length (snd (snd st))) st"
| "rx_run ic (Lazy a) st = star_lazy (rx_run ic a) (length (snd (snd st))) st"
| "rx_run ic (Grp k a) st = map (capture k st) (rx_run ic a st)"

text \<open>\<open>group(k)\<close> of a match: the text the group captured last.\<close>

definition group :: "mstate \<Rightarrow> nat \<Rightarrow> string" where
  "group m k = (case map_of (fst m) k of None \<Rightarrow> [] | Some s \<Rightarrow> s)"

text \<open>\<open>pattern.match(s)\<close>: the preferred match at the start of the string.\<close>

definition re_match :: "bool \<Rightarrow> rx \<Rightarrow> string \<Rightarrow> mstate option" where
  "re_match ic r s = (case rx_run ic r ([], None, s) of [] \<Rightarrow> None | m # ms \<Rightarrow> Some m)"

text \<open>\<open>pattern.search(s)\<close>: the preferred match at the leftmost position that has one.\<close>

fun search_from :: "bool \<Rightarrow> rx \<Rightarrow> char option \<Rightarrow> string \<Rightarrow> mstate option" where
  "search_from ic r prev [] =
     (case rx_run ic r ([], prev, []) of [] \<Rightarrow> None | m # ms \<Rightarrow> Some m)"
| "search_from ic r prev (c # cs) =
     (case rx_run ic r ([], prev, c # cs) of
        [] \<Rightarrow> search_from ic r (Some c) cs
      | m # ms \<Rightarrow> Some m)"

definition re_search :: "bool \<Rightarrow> rx \<Rightarrow> string \<Rightarrow> mstate option" where
  "re_search ic r s = search_from ic r None s"

text \<open>
  \<open>pattern.findall(s)\<close> for a pattern with one group: group 1 of the successive
  non-overlapping matches, left to right. After a match the scan resumes where the match
  ended (one character further when the match was empty).
\<close>

function findall_from :: "bool \<Rightarrow> rx \<Rightarrow> char option \<Rightarrow> string \<Rightarrow> string list" where
  "findall_from ic r prev s =
     (case rx_run ic r ([], prev, s) of
        [] \<Rightarrow> (case s of [] \<Rightarrow> [] | c # cs \<Rightarrow> findall_from ic r (Some c) cs)
      | m # ms \<Rightarrow>
          (if length (snd (snd m)) < length s
           then group m 1 # findall_from ic r (fst (snd m)) (snd (snd m))
           else group m 1 # (case s of [] \<Rightarrow> [] | c # cs \<Rightarrow> findall_from ic r (Some c) cs)))"
  by pat_completeness auto
termination
  by (relation "measure (\<lambda>(ic, r, prev, s). length s)") auto

definition findall :: "bool \<Rightarrow> rx \<Rightarrow> string \<Rightarrow> string list" where
  "findall ic r s = findall_from ic r None s"

subsection \<open>The script's patterns\<close>

definition seqs :: "rx list \<Rightarrow> rx" where
  "seqs rs = foldr Seq rs Eps"

definition alts :: "rx list \<Rightarrow> rx" where
  "alts rs = (case rs of [] \<Rightarrow> Eps | _ \<Rightarrow> foldr Alt (butlast rs) (last rs))"

definition lit :: "string \<Rightarrow> rx" where
  "lit s = seqs (map Chr s)"

definition Plus :: "rx \<Rightarrow> rx" where
  "Plus r = Seq r (Star r)"

definition Opt :: "rx \<Rightarrow> rx" where
  "Opt r = Alt r Eps"

definition alnum :: rx where
  "alnum = Cls [(CHR ''A'', CHR ''Z''), (CHR ''a'', CHR ''z''), (CHR ''0'', CHR ''9'')]"

definition bullet :: rx where
  "bullet = Cls [(CHR ''-'', CHR ''-''), (CHR ''*'', CHR ''*'')]"

definition checkbox :: rx where
  "checkbox = Cls [(CHR '' '', CHR '' ''), (CHR ''x'', CHR ''x''), (CHR ''X'', CHR ''X''),
                   (CHR ''~'', CHR ''~'')]"

text \<open>\<^verbatim>\<open>(?:FR|NFR|INV|R|TD)-[A-Za-z0-9]+(?:-[A-Za-z0-9]+)*\<close>\<close>

definition REQ_ID_CORE :: rx where
  "REQ_ID_CORE = seqs [alts [lit ''FR'', lit ''NFR'', lit ''INV'', lit ''R'', lit ''TD''],
     Chr CHR ''-'', Plus alnum, Star (Seq (Chr CHR ''-'') (Plus alnum))]"

text \<open>\<^verbatim>\<open>\b(CORE)\b\<close>\<close>

definition REQ_ID_PATTERN :: rx where
  "REQ_ID_PATTERN = seqs [WordB, Grp 1 REQ_ID_CORE, WordB]"

text \<open>\<^verbatim>\<open>^\s*[-*]\s*\*\*(CORE)\*\*:\s*(.*)\<close>\<close>

definition PRD_REQ_PATTERN :: rx where
  "PRD_REQ_PATTERN = seqs [Bol, Star Space, bullet, Star Space, lit ''**'', Grp 1 REQ_ID_CORE,
     lit ''**:'', Star Space, Grp 2 (Star Dot)]"

text \<open>\<^verbatim>\<open>^\s*\|\s*(CORE)\s*\|\s*(.*?)\s*\|.*\<close>\<close>

definition PRD_TABLE_REQ_PATTERN :: rx where
  "PRD_TABLE_REQ_PATTERN = seqs [Bol, Star Space, Chr CHR ''|'', Star Space, Grp 1 REQ_ID_CORE,
     Star Space, Chr CHR ''|'', Star Space, Grp 2 (Lazy Dot), Star Space, Chr CHR ''|'',
     Star Dot]"

text \<open>\<^verbatim>\<open>^#+\s*(CORE):\s*(.*)\<close>\<close>

definition PRD_HEADING_PATTERN :: rx where
  "PRD_HEADING_PATTERN = seqs [Bol, Plus (Chr CHR ''#''), Star Space, Grp 1 REQ_ID_CORE,
     Chr CHR '':'', Star Space, Grp 2 (Star Dot)]"

text \<open>\<^verbatim>\<open>^\s*[-*]\s*\[([ xX~])\]\s*\*\*(CORE)\*\*:\s*(.*)\<close>\<close>

definition PLAN_ITEM_PATTERN :: rx where
  "PLAN_ITEM_PATTERN = seqs [Bol, Star Space, bullet, Star Space, Chr CHR ''['', Grp 1 checkbox,
     Chr CHR '']'', Star Space, lit ''**'', Grp 2 REQ_ID_CORE, lit ''**:'', Star Space,
     Grp 3 (Star Dot)]"

text \<open>\<^verbatim>\<open>^\s*[-*]\s*\[([ xX~])\]\s*(.*)\<close>\<close>

definition TASK_PATTERN :: rx where
  "TASK_PATTERN = seqs [Bol, Star Space, bullet, Star Space, Chr CHR ''['', Grp 1 checkbox,
     Chr CHR '']'', Star Space, Grp 2 (Star Dot)]"

text \<open>\<^verbatim>\<open>^#+\s+(.*)\<close>\<close>

definition HEADER_PATTERN :: rx where
  "HEADER_PATTERN = seqs [Bol, Plus (Chr CHR ''#''), Plus Space, Grp 1 (Star Dot)]"

text \<open>\<^verbatim>\<open>Tests?:\s*`([^`]+)`\<close>\<close>

definition TEST_REF_PATTERN :: rx where
  "TEST_REF_PATTERN = seqs [lit ''Test'', Opt (Chr CHR ''s''), Chr CHR '':'', Star Space,
     Chr (CHR 0x60), Grp 1 (Plus (NotChr (CHR 0x60))), Chr (CHR 0x60)]"

text \<open>
  \<^verbatim>\<open>^\s*\|\s*(CORE)\s*\|\s*(Done|Pending|In Progress|Complete|Incomplete|Yes|No|-)\s*\|\<close>,
  compiled with \<open>re.IGNORECASE\<close>.
\<close>

definition PLAN_TABLE_PATTERN :: rx where
  "PLAN_TABLE_PATTERN = seqs [Bol, Star Space, Chr CHR ''|'', Star Space, Grp 1 REQ_ID_CORE,
     Star Space, Chr CHR ''|'', Star Space,
     Grp 2 (alts [lit ''Done'', lit ''Pending'', lit ''In Progress'', lit ''Complete'',
                  lit ''Incomplete'', lit ''Yes'', lit ''No'', lit ''-'']),
     Star Space, Chr CHR ''|'']"

section \<open>Data model\<close>

text \<open>
  The dataclasses of the script. A Python \<open>dict\<close> keeps its keys in insertion order and
  the report iterates over some of them, so a dictionary is an association list with
  distinct keys: storing under a key that is present replaces the value in place, storing
  under a new key appends.
\<close>

record Requirement =
  r_id :: string
  r_text :: string
  r_line_number :: nat

record PlanItem =
  item_id :: string
  item_text :: string
  completed :: bool
  item_line_number :: nat
  test_refs :: "string list"

fun dict_set :: "('k \<times> 'v) list \<Rightarrow> 'k \<Rightarrow> 'v \<Rightarrow> ('k \<times> 'v) list" where
  "dict_set [] k v = [(k, v)]"
| "dict_set ((k', v') # d) k v = (if k' = k then (k, v) # d else (k', v') # dict_set d k v)"

definition dict_get :: "('k \<times> 'v) list \<Rightarrow> 'k \<Rightarrow> 'v option" where
  "dict_get d k = map_of d k"

definition dict_has :: "('k \<times> 'v) list \<Rightarrow> 'k \<Rightarrow> bool" where
  "dict_has d k = (map_of d k \<noteq> None)"

definition dict_keys :: "('k \<times> 'v) list \<Rightarrow> 'k list" where
  "dict_keys d = map fst d"

section \<open>Requirement extractor\<close>

text \<open>
  One round of the loop of \<open>parse_prd\<close> on line \<open>i\<close> (counted from 1): the list form,
  else the table form, else the heading form; the first that matches stores the
  requirement.
\<close>

definition prd_step :: "nat \<Rightarrow> string \<Rightarrow> (string \<times> Requirement) list \<Rightarrow> (string \<times> Requirement) list" where
  "prd_step i line requirements =
     (case re_match False PRD_REQ_PATTERN line of
        Some m \<Rightarrow>
          dict_set requirements (group m 1)
            \<lparr>r_id = group m 1, r_text = strip (group m 2), r_line_number = i\<rparr>
      | None \<Rightarrow>
     (case re_match False PRD_TABLE_REQ_PATTERN line of
        Some m \<Rightarrow>
          dict_set requirements (group m 1)
            \<lparr>r_id = group m 1, r_text = strip (group m 2), r_line_number = i\<rparr>
      | None \<Rightarrow>
     (case re_match False PRD_HEADING_PATTERN line of
        Some m \<Rightarrow>
          dict_set requirements (group m 1)
            \<lparr>r_id = group m 1, r_text = strip (group m 2), r_line_number = i\<rparr>
      | None \<Rightarrow> requirements)))"

fun prd_loop :: "nat \<Rightarrow> string list \<Rightarrow> (string \<times> Requirement) list \<Rightarrow> (string \<times> Requirement) list" where
  "prd_loop i [] requirements = requirements"
| "prd_loop i (line # rest) requirements = prd_loop (i + 1) rest (prd_step i line requirements)"

definition parse_prd_lines :: "string list \<Rightarrow> (string \<times> Requirement) list" where
  "parse_prd_lines lines = prd_loop 1 lines []"

text \<open>\<open>parse_prd\<close> on the text that \<open>read_text\<close> returned.\<close>

definition parse_prd :: "string \<Rightarrow> (string \<times> Requirement) list" where
  "parse_prd content = parse_prd_lines (split_on newline content)"

section \<open>Plan extractor\<close>

text \<open>The slice \<open>xs[lo:hi]\<close> for indices that are not negative.\<close>

definition slice :: "nat \<Rightarrow> nat \<Rightarrow> 'a list \<Rightarrow> 'a list" where
  "slice lo hi xs = take (hi - lo) (drop lo xs)"

text \<open>
  The test references of a task on line \<open>i\<close>: the first \<^verbatim>\<open>Tests: `...`\<close> in the line and
  the five lines after it, split at commas.
\<close>

definition find_test_refs :: "string list \<Rightarrow> nat \<Rightarrow> string list" where
  "find_test_refs lines i =
     (let context = join [newline] (slice (max 0 (i - 1)) (min (length lines) (i + 5)) lines)
      in case re_search False TEST_REF_PATTERN context of
           None \<Rightarrow> []
         | Some m \<Rightarrow> map strip (split_on CHR '','' (group m 1)))"

text \<open>
  \<open>for section_req in current_section_reqs: if section_req in plan_items:
  plan_items[section_req].completed = False\<close>
\<close>

definition mark_incomplete :: "string \<Rightarrow> (string \<times> PlanItem) list \<Rightarrow> (string \<times> PlanItem) list" where
  "mark_incomplete section_req plan_items =
     (case dict_get plan_items section_req of
        None \<Rightarrow> plan_items
      | Some item \<Rightarrow> dict_set plan_items section_req (item\<lparr>completed := False\<rparr>))"

definition revoke_section :: "string list \<Rightarrow> (string \<times> PlanItem) list \<Rightarrow> (string \<times> PlanItem) list" where
  "revoke_section current_section_reqs plan_items = fold mark_incomplete current_section_reqs plan_items"

type_synonym plan_state = "(string \<times> PlanItem) list \<times> string list"

text \<open>
  One round of the loop of \<open>parse_plan\<close> on line \<open>i\<close> of \<open>lines\<close>, on the pair of
  \<open>plan_items\<close> and \<open>current_section_reqs\<close>: a heading, else a strict task, else a loose
  task, else a table row.
\<close>

definition plan_step :: "string list \<Rightarrow> nat \<Rightarrow> string \<Rightarrow> plan_state \<Rightarrow> plan_state" where
  "plan_step lines i line st =
     (case st of (plan_items, current_section_reqs) \<Rightarrow>
     (case re_match False HEADER_PATTERN line of
        Some header_match \<Rightarrow>
          (let text = strip (group header_match 1);
               ids = findall False REQ_ID_PATTERN text
           in if ids \<noteq> []
              then (fold (\<lambda>req_id items. dict_set items req_id
                            \<lparr>item_id = req_id, item_text = ''Section: '' @ text, completed = True,
                             item_line_number = i, test_refs = []\<rparr>) ids plan_items,
                    ids)
              else (plan_items, []))
      | None \<Rightarrow>
     (case re_match False PLAN_ITEM_PATTERN line of
        Some m \<Rightarrow>
          (let status = group m 1;
               req_id = group m 2;
               text = strip (group m 3);
               plan_items1 = (if lower status \<noteq> ''x''
                              then revoke_section current_section_reqs plan_items
                              else plan_items);
               refs = find_test_refs lines i
           in (dict_set plan_items1 req_id
                 \<lparr>item_id = req_id, item_text = text, completed = (lower status = ''x''),
                  item_line_number = i, test_refs = refs\<rparr>,
               current_section_reqs))
      | None \<Rightarrow>
     (case re_match False TASK_PATTERN line of
        Some m \<Rightarrow>
          (let status = group m 1;
               text = strip (group m 2);
               plan_items1 = (if lower status \<noteq> ''x''
                              then revoke_section current_section_reqs plan_items
                              else plan_items);
               ids = findall False REQ_ID_PATTERN text
           in (fold (\<lambda>req_id items. dict_set items req_id
                       \<lparr>item_id = req_id, item_text = text, completed = (lower status = ''x''),
                        item_line_number = i, test_refs = find_test_refs lines i\<rparr>) ids plan_items1,
               current_section_reqs))
      | None \<Rightarrow>
     (case re_match True PLAN_TABLE_PATTERN line of
        Some m \<Rightarrow>
          (let req_id = group m 1;
               status_text = lower (group m 2);
               completed = (status_text \<in> set [''done'', ''complete'', ''yes''])
           in if \<not> dict_has plan_items req_id
              then (dict_set plan_items req_id
                      \<lparr>item_id = req_id, item_text = ''Table entry: '' @ strip line,
                       completed = completed, item_line_number = i, test_refs = []\<rparr>,
                    current_section_reqs)
              else (plan_items, current_section_reqs))
      | None \<Rightarrow> (plan_items, current_section_reqs))))))"

fun plan_loop :: "string list \<Rightarrow> nat \<Rightarrow> string list \<Rightarrow> plan_state \<Rightarrow> plan_state" where
  "plan_loop lines i [] st = st"
| "plan_loop lines i (line # rest) st = plan_loop lines (i + 1) rest (plan_step lines i line st)"

definition parse_plan_lines :: "string list \<Rightarrow> (string \<times> PlanItem) list" where
  "parse_plan_lines lines = fst (plan_loop lines 1 lines ([], []))"

text \<open>\<open>parse_plan\<close> on the text that \<open>read_text\<close> returned.\<close>

definition parse_plan :: "string \<Rightarrow> (string \<times> PlanItem) list" where
  "parse_plan content = parse_plan_lines (split_on newline content)"

section \<open>Test analyzer\<close>

subsection \<open>Syntax trees\<close>

text \<open>
  The value of an \<open>ast.Constant\<close>. A float is the number it denotes (or infinity), an
  imaginary literal the number before the \<open>j\<close>; \<open>py_eq\<close> is Python's \<open>==\<close> on such values,
  which compares numbers of different types by their exact values.
\<close>

datatype fval = Fin rat | Infinity

datatype py_const =
    CNone
  | CBool bool
  | CInt int
  | CFloat fval
  | CImag fval
  | CStr string
  | CBytes string
  | CEllipsis

fun num_value :: "py_const \<Rightarrow> (fval \<times> fval) option" where
  "num_value (CBool b) = Some (Fin (if b then 1 else 0), Fin 0)"
| "num_value (CInt n) = Some (Fin (of_int n), Fin 0)"
| "num_value (CFloat f) = Some (f, Fin 0)"
| "num_value (CImag f) = Some (Fin 0, f)"
| "num_value c = None"

definition py_eq :: "py_const \<Rightarrow> py_const \<Rightarrow> bool" where
  "py_eq a b =
     (case (num_value a, num_value b) of
        (Some x, Some y) \<Rightarrow> x = y
      | (None, None) \<Rightarrow> a = b
      | _ \<Rightarrow> False)"

text \<open>
  The nodes of Python's \<open>ast\<close> that the script tells apart, with the fields it reads and
  the child nodes a \<open>NodeVisitor\<close> walks through; every other node class is a \<open>Node\<close>
  with its class name and its child nodes. A function definition carries its name, its
  \<open>lineno\<close>, its \<open>decorator_list\<close> and its body; a class definition its name and body; a
  call its function, its arguments and the values of its keywords; a \<open>with\<close> statement
  its items (context expression and optional target) and its body.
\<close>

datatype cmpop = Eq | NotEq | Lt | LtE | Gt | GtE | Is | IsNot | In | NotIn

datatype ast =
    Pass
  | Expr ast
  | Assert ast "ast option"
  | Constant py_const
  | Compare ast "cmpop list" "ast list"
  | Call ast "ast list" "ast list"
  | Attribute ast string
  | With "(ast \<times> ast option) list" "ast list"
  | FunctionDef string nat "ast list" "ast list"
  | AsyncFunctionDef string nat "ast list" "ast list"
  | ClassDef string "ast list"
  | Node string "ast list"

subsection \<open>Integrity check\<close>

text \<open>The method names that \<open>visit_Call\<close> takes for assertion evidence.\<close>

definition evidence_call :: "ast \<Rightarrow> bool" where
  "evidence_call func =
     (case func of
        Attribute v attr \<Rightarrow>
          attr \<in> set [''raises'', ''warns'', ''assert_called'', ''assert_called_once'',
                      ''assert_called_with'', ''assert_called_once_with'',
                      ''assert_not_called'', ''assert_has_calls'']
      | _ \<Rightarrow> False)"

text \<open>\<open>visit_With\<close>: some item's context expression is a call of \<open>raises\<close> or \<open>warns\<close>.\<close>

definition evidence_with :: "(ast \<times> ast option) list \<Rightarrow> bool" where
  "evidence_with items =
     list_ex (\<lambda>item. case fst item of
                 Call func args keywords \<Rightarrow>
                   (case func of
                      Attribute v attr \<Rightarrow> attr \<in> set [''raises'', ''warns'']
                    | _ \<Rightarrow> False)
               | _ \<Rightarrow> False) items"

text \<open>
  \<open>AssertionFinder.visit\<close>, on the flag \<open>found\<close>: an assert statement sets it and is not
  entered; a call and a \<open>with\<close> statement may set it and are walked through; nested
  function and class definitions are not entered; every other node is walked through
  (\<open>generic_visit\<close>).
\<close>

function visit :: "ast \<Rightarrow> bool \<Rightarrow> bool"
and visit_each :: "ast list \<Rightarrow> bool \<Rightarrow> bool"
and visit_items :: "(ast \<times> ast option) list \<Rightarrow> bool \<Rightarrow> bool" where
  "visit Pass found = found"
| "visit (Expr v) found = visit v found"
| "visit (Assert test msg) found = True"
| "visit (Constant c) found = found"
| "visit (Compare left ops comparators) found = visit_each comparators (visit left found)"
| "visit (Call func args keywords) found =
     visit_each keywords (visit_each args (visit func (if evidence_call func then True else found)))"
| "visit (Attribute v attr) found = visit v found"
| "visit (With items body) found =
     visit_each body (visit_items items (if evidence_with items then True else found))"
| "visit (FunctionDef name lineno decorator_list body) found = found"
| "visit (AsyncFunctionDef name lineno decorator_list body) found = found"
| "visit (ClassDef name body) found = found"
| "visit (Node cls children) found = visit_each children found"
| "visit_each [] found = found"
| "visit_each (n # ns) found = visit_each ns (visit n found)"
| "visit_items [] found = found"
| "visit_items ((context_expr, None) # items) found =
     visit_items items (visit context_expr found)"
| "visit_items ((context_expr, Some optional_vars) # items) found =
     visit_items items (visit optional_vars (visit context_expr found))"
  by pat_completeness auto
termination
  by (relation "measure (\<lambda>x. case x of
          Inl (n, found) \<Rightarrow> size n
        | Inr (Inl (ns, found)) \<Rightarrow> size_list size ns
        | Inr (Inr (items, found)) \<Rightarrow> size_list (size_prod size (size_option size)) items)")
     auto

text \<open>The body without a leading documentation string.\<close>

definition body_without_docstring :: "ast list \<Rightarrow> ast list" where
  "body_without_docstring body =
     (case body of
        Expr (Constant (CStr s)) # rest \<Rightarrow> rest
      | _ \<Rightarrow> body)"

text \<open>The always-pass issue of one top-level statement, if it has one.\<close>

definition always_pass_issues :: "ast \<Rightarrow> string list" where
  "always_pass_issues node =
     (case node of
        Assert test msg \<Rightarrow>
          (case test of
             Constant v \<Rightarrow>
               if v = CBool True then [''Always-pass pattern: assert True'']
               else if py_eq v (CInt 1) then [''Always-pass pattern: assert 1'']
               else []
           | Compare left ops comparators \<Rightarrow>
               (case (left, ops, comparators) of
                  (Constant l, [Eq], [Constant r]) \<Rightarrow>
                    if py_eq l r then [''Always-pass pattern: trivial comparison''] else []
                | _ \<Rightarrow> [])
           | _ \<Rightarrow> [])
      | _ \<Rightarrow> [])"

text \<open>A statement that does not make the body non-trivial: \<open>pass\<close>, or a bare constant.\<close>

definition trivial_stmt :: "ast \<Rightarrow> bool" where
  "trivial_stmt node =
     (case node of
        Pass \<Rightarrow> True
      | Expr v \<Rightarrow> (case v of Constant c \<Rightarrow> True | _ \<Rightarrow> False)
      | _ \<Rightarrow> False)"

text \<open>\<open>check_test_integrity\<close>, on the body of the function node.\<close>

definition check_test_integrity :: "ast list \<Rightarrow> string list" where
  "check_test_integrity body =
     (let stmts = body_without_docstring body
      in if stmts = [Pass] then [''Placeholder test (only pass statement)'']
         else
           (let issues = concat (map always_pass_issues stmts);
                has_assertion = visit_each body False
            in if \<not> has_assertion \<and> list_all trivial_stmt stmts
               then issues @ [''No assertions found (placeholder test)'']
               else issues))"

subsection \<open>Test records\<close>

text \<open>
  A path is the list of its components (below the root of the file system for an absolute
  path). The arguments of a requirement marker are stored as they are, whatever constant
  they are.
\<close>

type_synonym path = "string list"

record TestInfo =
  test_name :: string
  test_file :: path
  test_line_number :: nat
  requirement_ids :: "py_const list"
  issues :: "string list"

datatype error = SyntaxError | ValueError | RecursionError | KeyError | TypeError

definition startswith :: "string \<Rightarrow> string \<Rightarrow> bool" where
  "startswith s p = (take (length p) s = p)"

definition endswith :: "string \<Rightarrow> string \<Rightarrow> bool" where
  "endswith s p = (length p \<le> length s \<and> drop (length s - length p) s = p)"

text \<open>The constants a decorator \<open>@x.requirement(...)\<close> contributes.\<close>

definition decorator_ids :: "ast \<Rightarrow> py_const list" where
  "decorator_ids decorator =
     (case decorator of
        Call func args keywords \<Rightarrow>
          (case func of
             Attribute v attr \<Rightarrow>
               if attr = ''requirement''
               then concat (map (\<lambda>arg. case arg of Constant c \<Rightarrow> [c] | _ \<Rightarrow> []) args)
               else []
           | _ \<Rightarrow> [])
      | _ \<Rightarrow> [])"

text \<open>\<open>process_test_function\<close>: the records a function node appends to \<open>tests\<close>.\<close>

definition process_test_function :: "path \<Rightarrow> string \<Rightarrow> nat \<Rightarrow> ast list \<Rightarrow> ast list \<Rightarrow> TestInfo list" where
  "process_test_function test_path name lineno decorator_list body =
     (if \<not> startswith name ''test_'' then []
      else [\<lparr>test_name = name, test_file = test_path, test_line_number = lineno,
             requirement_ids = concat (map decorator_ids decorator_list),
             issues = check_test_integrity body\<rparr>])"

definition process_if_function :: "path \<Rightarrow> ast \<Rightarrow> TestInfo list" where
  "process_if_function test_path node =
     (case node of
        FunctionDef name lineno decorator_list body \<Rightarrow>
          process_test_function test_path name lineno decorator_list body
      | AsyncFunctionDef name lineno decorator_list body \<Rightarrow>
          process_test_function test_path name lineno decorator_list body
      | _ \<Rightarrow> [])"

definition process_top_level :: "path \<Rightarrow> ast \<Rightarrow> TestInfo list" where
  "process_top_level test_path node =
     (case node of
        ClassDef name body \<Rightarrow> concat (map (process_if_function test_path) body)
      | _ \<Rightarrow> process_if_function test_path node)"

text \<open>
  \<open>analyze_test_file\<close>. \<open>ast.parse\<close> is Python's, so it is a parameter: it returns the
  body of the module, or the error it raised. Only \<open>SyntaxError\<close> is caught.
\<close>

definition analyze_test_file :: "(string \<Rightarrow> error + ast list) \<Rightarrow> path \<Rightarrow> string \<Rightarrow> error + TestInfo list" where
  "analyze_test_file ast_parse test_path content =
     (case ast_parse content of
        Inl e \<Rightarrow> if e = SyntaxError then Inr [] else Inl e
      | Inr tree_body \<Rightarrow> Inr (concat (map (process_top_level test_path) tree_body)))"

section \<open>Test scanner\<close>

definition skip_dirs :: "string list" where
  "skip_dirs = [''.venv'', ''venv'', ''node_modules'', ''.git'', ''__pycache__'',
                ''.tox'', ''.nox'', ''build'', ''dist'', ''.eggs'', ''*.egg-info'']"

definition should_skip :: "path \<Rightarrow> bool" where
  "should_skip parts = list_ex (\<lambda>part. part \<in> set skip_dirs \<or> endswith part ''.egg-info'') parts"

text \<open>
  The list \<open>test_files\<close> before it is made a set. \<open>Path.glob\<close> reads the file system, so
  it is a parameter: \<open>glob pattern\<close> is the matches of \<open>project_root.glob(pattern)\<close>, each
  relative to the project root.
\<close>

definition candidate_test_files :: "(string \<Rightarrow> path list) \<Rightarrow> path \<Rightarrow> path list" where
  "candidate_test_files glob project_root =
     concat (map (\<lambda>pattern. map (\<lambda>rel. project_root @ rel)
                                 (filter (\<lambda>rel. \<not> should_skip rel) (glob pattern)))
                 [''tests/**/test_*.py'', ''test_*.py'', ''**/test_*.py''])"

text \<open>
  \<open>find_test_files\<close> returns \<open>list(set(test_files))\<close>: the candidates without duplicates,
  in the order in which the set happens to iterate. That order follows the hash values of
  the paths, which Python draws anew for every process, so the model admits every order.
\<close>

definition find_test_files :: "(string \<Rightarrow> path list) \<Rightarrow> path \<Rightarrow> path list \<Rightarrow> bool" where
  "find_test_files glob project_root files =
     (distinct files \<and> set files = set (candidate_test_files glob project_root))"

section \<open>Reconciler\<close>

record AuditResult =
  requirements :: "(string \<times> Requirement) list"
  plan_items :: "(string \<times> PlanItem) list"
  tests :: "TestInfo list"
  prd_not_in_plan :: "string list"
  plan_not_in_prd :: "string list"
  no_test_coverage :: "string list"
  suspect_tests :: "TestInfo list"
  completion_issues :: "(string \<times> string) list"

definition and_then :: "error + 'a \<Rightarrow> ('a \<Rightarrow> error + 'b) \<Rightarrow> error + 'b" where
  "and_then r f = (case r of Inl e \<Rightarrow> Inl e | Inr x \<Rightarrow> f x)"

text \<open>
  The loop over the test files; \<open>read_text\<close> gives the text of a file. An error of
  \<open>analyze_test_file\<close> ends the audit.
\<close>

fun analyze_files :: "(string \<Rightarrow> error + ast list) \<Rightarrow> (path \<Rightarrow> string) \<Rightarrow> path list \<Rightarrow> error + TestInfo list" where
  "analyze_files ast_parse read_text [] = Inr []"
| "analyze_files ast_parse read_text (test_path # rest) =
     and_then (analyze_test_file ast_parse test_path (read_text test_path)) (\<lambda>found.
     and_then (analyze_files ast_parse read_text rest) (\<lambda>more. Inr (found @ more)))"

text \<open>\<open>req_id in t.requirement_ids\<close>: a string equals only a string constant.\<close>

definition declares :: "TestInfo \<Rightarrow> string \<Rightarrow> bool" where
  "declares t req_id = (CStr req_id \<in> set (requirement_ids t))"

text \<open>The checks of \<open>run_audit\<close>, once the two documents and the tests are there.\<close>

definition reconcile :: "(string \<times> Requirement) list \<Rightarrow> (string \<times> PlanItem) list \<Rightarrow> TestInfo list \<Rightarrow> AuditResult" where
  "reconcile reqs items ts =
     (let tested_requirements = concat (map requirement_ids ts)
      in \<lparr>requirements = reqs,
          plan_items = items,
          tests = ts,
          prd_not_in_plan = filter (\<lambda>req_id. \<not> dict_has items req_id) (dict_keys reqs),
          plan_not_in_prd = filter (\<lambda>plan_id. \<not> dict_has reqs plan_id) (dict_keys items),
          no_test_coverage =
            filter (\<lambda>req_id. CStr req_id \<notin> set tested_requirements) (dict_keys reqs),
          suspect_tests = filter (\<lambda>test. issues test \<noteq> []) ts,
          completion_issues =
            concat (map (\<lambda>(plan_id, plan_item).
                      if completed plan_item
                      then (let has_tests = list_ex (\<lambda>t. declares t plan_id) ts
                            in if \<not> has_tests \<and> dict_has reqs plan_id
                               then [(plan_id, ''Marked complete but no tests found'')]
                               else [])
                      else []) items)\<rparr>)"

text \<open>
  \<open>run_audit\<close>: \<open>prd\<close> and \<open>plan\<close> are the texts of \<open>PRD.md\<close> and \<open>PLAN.md\<close> (\<open>None\<close> when
  the file does not exist), \<open>test_files\<close> is what \<open>find_test_files\<close> returned.
\<close>

definition run_audit :: "string option \<Rightarrow> string option \<Rightarrow> (string \<Rightarrow> error + ast list) \<Rightarrow> (path \<Rightarrow> string) \<Rightarrow> path list \<Rightarrow> error + AuditResult" where
  "run_audit prd plan ast_parse read_text test_files =
     (let reqs = (case prd of None \<Rightarrow> [] | Some content \<Rightarrow> parse_prd content);
          items = (case plan of None \<Rightarrow> [] | Some content \<Rightarrow> parse_plan content)
      in and_then (analyze_files ast_parse read_text test_files) (\<lambda>ts.
           Inr (reconcile reqs items ts)))"

section \<open>Report and exit status\<close>

definition backtick :: string where
  "backtick = [CHR 0x60]"

text \<open>\<open>str\<close> of an absolute path, of a relative path, and \<open>Path.name\<close>.\<close>

definition str_abs :: "path \<Rightarrow> string" where
  "str_abs p = ''/'' @ join ''/'' p"

definition str_rel :: "path \<Rightarrow> string" where
  "str_rel p = join ''/'' p"

definition path_name :: "path \<Rightarrow> string" where
  "path_name p = (if p = [] then [] else last p)"

text \<open>
  \<open>test.file.relative_to(project_root) if project_root in test.file.parents else
  test.file\<close>, as the f-string prints it.
\<close>

definition rel_path :: "path \<Rightarrow> path \<Rightarrow> string" where
  "rel_path project_root file =
     (if length project_root < length file \<and> take (length project_root) file = project_root
      then str_rel (drop (length project_root) file)
      else str_abs file)"

definition lookup :: "('k \<times> 'v) list \<Rightarrow> 'k \<Rightarrow> error + 'v" where
  "lookup d k = (case map_of d k of None \<Rightarrow> Inl KeyError | Some v \<Rightarrow> Inr v)"

text \<open>A loop that appends the lines of each element and stops at the first error.\<close>

fun for_each :: "('a \<Rightarrow> error + string list) \<Rightarrow> 'a list \<Rightarrow> error + string list" where
  "for_each f [] = Inr []"
| "for_each f (x # xs) =
     and_then (f x) (\<lambda>ls. and_then (for_each f xs) (\<lambda>more. Inr (ls @ more)))"

text \<open>\<open>', '.join(ids)\<close> raises \<open>TypeError\<close> on an element that is not a string.\<close>

fun str_items :: "py_const list \<Rightarrow> error + string list" where
  "str_items [] = Inr []"
| "str_items (c # cs) =
     (case c of
        CStr s \<Rightarrow> and_then (str_items cs) (\<lambda>more. Inr (s # more))
      | _ \<Rightarrow> Inl TypeError)"

definition summary_lines :: "AuditResult \<Rightarrow> path \<Rightarrow> string list" where
  "summary_lines result project_root =
     [''# Project Audit Report'',
      [],
      ''**Project**: '' @ path_name project_root,
      ''**Audited**: '' @ str_abs project_root,
      [],
      ''---'',
      [],
      ''## Summary'',
      [],
      ''- **Requirements in PRD**: '' @ str_nat (length (requirements result)),
      ''- **Items in PLAN**: '' @ str_nat (length (plan_items result)),
      ''- **Test functions found**: '' @ str_nat (length (tests result)),
      []]"

text \<open>The count that the report displays.\<close>

definition report_total_issues :: "AuditResult \<Rightarrow> nat" where
  "report_total_issues result =
     length (prd_not_in_plan result) + length (plan_not_in_prd result) +
     length (no_test_coverage result) + length (suspect_tests result) +
     length (completion_issues result)"

definition total_line :: "AuditResult \<Rightarrow> string" where
  "total_line result =
     (let total_issues = report_total_issues result
      in if total_issues = 0 then ''**No issues found.**''
         else ''**Total issues found: '' @ str_nat total_issues @ ''**'')"

definition rule_lines :: "string list" where
  "rule_lines = [[], ''---'', []]"

definition prd_not_in_plan_lines :: "AuditResult \<Rightarrow> error + string list" where
  "prd_not_in_plan_lines result =
     (if prd_not_in_plan result \<noteq> []
      then and_then
             (for_each (\<lambda>req_id. and_then (lookup (requirements result) req_id) (\<lambda>req.
                  Inr [''- **'' @ req_id @ ''**: '' @ r_text req @ '' (PRD.md:'' @
                       str_nat (r_line_number req) @ '')'']))
                (sort (prd_not_in_plan result)))
             (\<lambda>ls. Inr ([''These requirements are defined in PRD.md but not tracked in PLAN.md:'',
                          []] @ ls))
      else Inr [''*None*''])"

definition plan_not_in_prd_lines :: "AuditResult \<Rightarrow> error + string list" where
  "plan_not_in_prd_lines result =
     (if plan_not_in_prd result \<noteq> []
      then and_then
             (for_each (\<lambda>plan_id. and_then (lookup (plan_items result) plan_id) (\<lambda>item.
                  Inr [''- **'' @ plan_id @ ''**: '' @ item_text item @ '' (PLAN.md:'' @
                       str_nat (item_line_number item) @ '')'']))
                (sort (plan_not_in_prd result)))
             (\<lambda>ls. Inr ([''These items are in PLAN.md but not defined in PRD.md:'', []] @ ls))
      else Inr [''*None*''])"

definition no_test_coverage_lines :: "AuditResult \<Rightarrow> error + string list" where
  "no_test_coverage_lines result =
     (if no_test_coverage result \<noteq> []
      then and_then
             (for_each (\<lambda>req_id. and_then (lookup (requirements result) req_id) (\<lambda>req.
                  Inr [''- **'' @ req_id @ ''**: '' @ r_text req]))
                (sort (no_test_coverage result)))
             (\<lambda>ls. Inr ([''These requirements have no tests with '' @ backtick @
                          ''@pytest.mark.requirement'' @ backtick @ '' marker:'', []] @ ls))
      else Inr [''*All requirements have test coverage*''])"

definition suspect_test_lines :: "path \<Rightarrow> TestInfo \<Rightarrow> error + string list" where
  "suspect_test_lines project_root test =
     and_then
       (if requirement_ids test \<noteq> []
        then and_then (str_items (requirement_ids test)) (\<lambda>ids.
               Inr [''**Requirements**: '' @ join '', '' ids])
        else Inr [])
       (\<lambda>req_lines.
          Inr ([''### '' @ backtick @ test_name test @ backtick @ '' ('' @
                  rel_path project_root (test_file test) @ '':'' @
                  str_nat (test_line_number test) @ '')'',
                []] @ req_lines @
               [[], ''**Issues**:''] @ map (\<lambda>issue. ''- '' @ issue) (issues test) @ [[]]))"

definition suspect_tests_lines :: "AuditResult \<Rightarrow> path \<Rightarrow> error + string list" where
  "suspect_tests_lines result project_root =
     (if suspect_tests result \<noteq> []
      then and_then (for_each (suspect_test_lines project_root) (suspect_tests result))
             (\<lambda>ls. Inr ([''These tests have integrity issues:'', []] @ ls))
      else Inr [''*No suspect tests found*''])"

definition completion_issues_lines :: "AuditResult \<Rightarrow> error + string list" where
  "completion_issues_lines result =
     (if completion_issues result \<noteq> []
      then and_then
             (for_each (\<lambda>(req_id, issue). and_then (lookup (plan_items result) req_id) (\<lambda>item.
                  Inr [''- **'' @ req_id @ ''**: '' @ issue @ '' (PLAN.md:'' @
                       str_nat (item_line_number item) @ '')'']))
                (completion_issues result))
             (\<lambda>ls. Inr ([''These items are marked complete but have issues:'', []] @ ls))
      else Inr [''*No completion issues found*''])"

definition matrix_row :: "AuditResult \<Rightarrow> string \<Rightarrow> string" where
  "matrix_row result req_id =
     (let in_plan = (if dict_has (plan_items result) req_id then ''Yes'' else ''No'');
          has_tests = (if list_ex (\<lambda>t. declares t req_id) (tests result) then ''Yes'' else ''No'');
          status = (case dict_get (plan_items result) req_id of
                      Some item \<Rightarrow> if completed item then ''Complete'' else ''Pending''
                    | None \<Rightarrow> ''Not tracked'')
      in ''| '' @ req_id @ '' | '' @ in_plan @ '' | '' @ has_tests @ '' | '' @ status @ '' |'')"

definition matrix_lines :: "AuditResult \<Rightarrow> string list" where
  "matrix_lines result =
     [''## Test Coverage Matrix'',
      [],
      ''| Requirement | In PLAN | Has Tests | Status |'',
      ''|-------------|---------|-----------|--------|''] @
     map (matrix_row result) (sort (dict_keys (requirements result))) @
     [[]]"

text \<open>The list \<open>lines\<close> of \<open>generate_report\<close>, or the error that building it raises.\<close>

definition report_lines :: "AuditResult \<Rightarrow> path \<Rightarrow> error + string list" where
  "report_lines result project_root =
     and_then (prd_not_in_plan_lines result) (\<lambda>s1.
     and_then (plan_not_in_prd_lines result) (\<lambda>s2.
     and_then (no_test_coverage_lines result) (\<lambda>s3.
     and_then (suspect_tests_lines result project_root) (\<lambda>s4.
     and_then (completion_issues_lines result) (\<lambda>s5.
       Inr (summary_lines result project_root @ [total_line result] @ rule_lines @
            [''## PRD Requirements Not in PLAN'', []] @ s1 @ rule_lines @
            [''## PLAN Items Without PRD Backing'', []] @ s2 @ rule_lines @
            [''## Requirements Without Test Coverage'', []] @ s3 @ rule_lines @
            [''## Suspect Tests'', []] @ s4 @ rule_lines @
            [''## Completion Honesty Issues'', []] @ s5 @ rule_lines @
            matrix_lines result))))))"

definition generate_report :: "AuditResult \<Rightarrow> path \<Rightarrow> error + string" where
  "generate_report result project_root =
     and_then (report_lines result project_root) (\<lambda>lines. Inr (join [newline] lines))"

text \<open>The status that \<open>main\<close> passes to \<open>sys.exit\<close> after the report.\<close>

definition exit_status :: "AuditResult \<Rightarrow> nat" where
  "exit_status result =
     (let total_issues =
            length (prd_not_in_plan result) + length (plan_not_in_prd result) +
            length (suspect_tests result) + length (completion_issues result)
      in if total_issues > 0 then 1 else 0)"

text \<open>
  \<open>main\<close>, from the check that both documents exist: the report, if one was generated,
  and the exit status; or the error that ended the run.
\<close>

definition main :: "string option \<Rightarrow> string option \<Rightarrow> (string \<Rightarrow> error + ast list) \<Rightarrow> (path \<Rightarrow> string) \<Rightarrow> path \<Rightarrow> path list \<Rightarrow> error + (string option \<times> nat)" where
  "main prd plan ast_parse read_text project_root test_files =
     (if prd = None then Inr (None, 1)
      else if plan = None then Inr (None, 1)
      else and_then (run_audit prd plan ast_parse read_text test_files) (\<lambda>result.
           and_then (generate_report result project_root) (\<lambda>report.
             Inr (Some report, exit_status result))))"

section \<open>Inputs of the properties\<close>

text \<open>The statement \<^verbatim>\<open>assert 1 == 1\<close> as \<open>ast.parse\<close> returns it.\<close>

definition assert_1_eq_1 :: ast where
  "assert_1_eq_1 = Assert (Compare (Constant (CInt 1)) [Eq] [Constant (CInt 1)]) None"

text \<open>
  What a line of the requirements document defines, if anything: the id and the stripped
  text of the first of the three forms that matches, in the order of \<open>parse_prd\<close>.
\<close>

definition prd_definition :: "string \<Rightarrow> (string \<times> string) option" where
  "prd_definition line =
     (case re_match False PRD_REQ_PATTERN line of
        Some m \<Rightarrow> Some (group m 1, strip (group m 2))
      | None \<Rightarrow>
     (case re_match False PRD_TABLE_REQ_PATTERN line of
        Some m \<Rightarrow> Some (group m 1, strip (group m 2))
      | None \<Rightarrow>
     (case re_match False PRD_HEADING_PATTERN line of
        Some m \<Rightarrow> Some (group m 1, strip (group m 2))
      | None \<Rightarrow> None)))"

text \<open>
  How \<open>parse_plan\<close> reads a line of the plan, in its order of tests: as a heading (with
  its stripped text), else as a strict task (checkbox, id, stripped text), else as a loose
  task (checkbox, stripped text), else as a table row (id, status in lower case).
\<close>

definition heading_line :: "string \<Rightarrow> string option" where
  "heading_line line =
     (case re_match False HEADER_PATTERN line of
        None \<Rightarrow> None
      | Some m \<Rightarrow> Some (strip (group m 1)))"

definition strict_task_line :: "string \<Rightarrow> (string \<times> string \<times> string) option" where
  "strict_task_line line =
     (if heading_line line \<noteq> None then None
      else case re_match False PLAN_ITEM_PATTERN line of
             None \<Rightarrow> None
           | Some m \<Rightarrow> Some (group m 1, group m 2, strip (group m 3)))"

definition loose_task_line :: "string \<Rightarrow> (string \<times> string) option" where
  "loose_task_line line =
     (if heading_line line \<noteq> None \<or> strict_task_line line \<noteq> None then None
      else case re_match False TASK_PATTERN line of
             None \<Rightarrow> None
           | Some m \<Rightarrow> Some (group m 1, strip (group m 2)))"

definition table_row_line :: "string \<Rightarrow> (string \<times> string) option" where
  "table_row_line line =
     (if heading_line line \<noteq> None \<or> strict_task_line line \<noteq> None \<or> loose_task_line line \<noteq> None
      then None
      else case re_match True PLAN_TABLE_PATTERN line of
             None \<Rightarrow> None
           | Some m \<Rightarrow> Some (group m 1, lower (group m 2)))"

text \<open>A line that is neither a heading nor a task: a table row, or a line that is ignored.\<close>

definition no_heading_no_task :: "string \<Rightarrow> bool" where
  "no_heading_no_task line =
     (heading_line line = None \<and> strict_task_line line = None \<and> loose_task_line line = None)"

text \<open>
  The value of \<open>current_section_reqs\<close> after some lines of the plan: the ids of the last
  heading (none when that heading embeds no id); task lines and table rows leave it as it
  is.
\<close>

fun section_after :: "string list \<Rightarrow> string list \<Rightarrow> string list" where
  "section_after cur [] = cur"
| "section_after cur (line # rest) =
     section_after
       (case heading_line line of
          Some htext \<Rightarrow> findall False REQ_ID_PATTERN htext
        | None \<Rightarrow> cur)
       rest"

text \<open>
  Lines that leave the PlanItem of an id as it is, read from a point where
  \<open>current_section_reqs\<close> is \<open>cur\<close>: no heading embeds the id, no task line names it, and
  no task line is unchecked while the id is in the current section.
\<close>

fun leaves_item :: "string \<Rightarrow> string list \<Rightarrow> string list \<Rightarrow> bool" where
  "leaves_item rid cur [] = True"
| "leaves_item rid cur (line # rest) =
     (case heading_line line of
        Some htext \<Rightarrow>
          rid \<notin> set (findall False REQ_ID_PATTERN htext) \<and>
          leaves_item rid (findall False REQ_ID_PATTERN htext) rest
      | None \<Rightarrow>
     (case strict_task_line line of
        Some (status, other, desc) \<Rightarrow>
          other \<noteq> rid \<and> (lower status = ''x'' \<or> rid \<notin> set cur) \<and> leaves_item rid cur rest
      | None \<Rightarrow>
     (case loose_task_line line of
        Some (status, desc) \<Rightarrow>
          rid \<notin> set (findall False REQ_ID_PATTERN desc) \<and>
          (lower status = ''x'' \<or> rid \<notin> set cur) \<and> leaves_item rid cur rest
      | None \<Rightarrow> leaves_item rid cur rest)))"

text \<open>
  A small project: \<open>/home/demo\<close> with one requirement, one open task and two test files
  under \<open>tests/\<close>, each holding one placeholder test.
\<close>

definition demo_root :: path where
  "demo_root = [''home'', ''demo'']"

definition demo_glob :: "string \<Rightarrow> path list" where
  "demo_glob pattern =
     (if pattern = ''tests/**/test_*.py'' \<or> pattern = ''**/test_*.py''
      then [[''tests'', ''test_a.py''], [''tests'', ''test_b.py'']]
      else [])"

definition demo_a :: path where
  "demo_a = [''home'', ''demo'', ''tests'', ''test_a.py'']"

definition demo_b :: path where
  "demo_b = [''home'', ''demo'', ''tests'', ''test_b.py'']"

definition demo_read_text :: "path \<Rightarrow> string" where
  "demo_read_text p = (if p = demo_a then ''def test_a(): pass'' else ''def test_b(): pass'')"

definition demo_ast_parse :: "string \<Rightarrow> error + ast list" where
  "demo_ast_parse s =
     (if s = ''def test_a(): pass'' then Inr [FunctionDef ''test_a'' 1 [] [Pass]]
      else Inr [FunctionDef ''test_b'' 1 [] [Pass]])"

definition demo_prd :: string where
  "demo_prd = ''- **FR-1**: parse the input''"

definition demo_plan :: string where
  "demo_plan = ''- [ ] **FR-1**: write the parser''"

section \<open>Properties of the test analyzer\<close>

text \<open>
  C6. A test function whose body is one \<open>pass\<close> statement, after an optional leading
  documentation string, gets exactly the issue list with the one entry
  "Placeholder test (only pass statement)": the check returns at once.
\<close>

theorem placeholder_only_pass:
  assumes "body = [Pass] \<or> body = [Expr (Constant (CStr doc)), Pass]"
  shows "check_test_integrity body = [''Placeholder test (only pass statement)'']"
  using assms by (auto simp: check_test_integrity_def body_without_docstring_def)

theorem placeholder_only_pass_witness:
  "check_test_integrity [Expr (Constant (CStr ''Checks nothing yet.'')), Pass] =
     [''Placeholder test (only pass statement)'']"
  using placeholder_only_pass
    [of "[Expr (Constant (CStr ''Checks nothing yet.'')), Pass]" "''Checks nothing yet.''"]
  by simp

text \<open>
  C1, as the specification states it: a test whose only statement is \<^verbatim>\<open>assert 1 == 1\<close>
  gets both the trivial-comparison issue and the no-assertions issue. It does not: the
  assert statement is itself assertion evidence for \<open>AssertionFinder\<close>.
\<close>

theorem tautology_both_flags_counterexample:
  "\<not> (''Always-pass pattern: trivial comparison'' \<in> set (check_test_integrity [assert_1_eq_1]) \<and>
      ''No assertions found (placeholder test)'' \<in> set (check_test_integrity [assert_1_eq_1]))"
  by (simp add: check_test_integrity_def body_without_docstring_def assert_1_eq_1_def
      always_pass_issues_def py_eq_def)

text \<open>
  C1, amended. A test function whose body is the statement \<^verbatim>\<open>assert 1 == 1\<close>, after an
  optional leading documentation string, gets exactly the issue list with the one entry
  "Always-pass pattern: trivial comparison"; the no-assertions issue is not raised.
\<close>

theorem tautology_only_trivial_comparison:
  assumes "body = [assert_1_eq_1] \<or> body = [Expr (Constant (CStr doc)), assert_1_eq_1]"
  shows "check_test_integrity body = [''Always-pass pattern: trivial comparison'']"
  using assms
  by (auto simp: check_test_integrity_def body_without_docstring_def assert_1_eq_1_def
      always_pass_issues_def py_eq_def)

theorem tautology_only_trivial_comparison_witness:
  "check_test_integrity [assert_1_eq_1] = [''Always-pass pattern: trivial comparison'']"
  using tautology_only_trivial_comparison [of "[assert_1_eq_1]" "[]"]
  by simp

lemma analyze_files_append:
  "analyze_files ast_parse read_text (xs @ ys) =
     and_then (analyze_files ast_parse read_text xs) (\<lambda>found.
     and_then (analyze_files ast_parse read_text ys) (\<lambda>more. Inr (found @ more)))"
  by (induction xs) (auto simp: and_then_def split: sum.splits)

text \<open>
  C8. When the text of a test file does not parse (\<open>ast.parse\<close> raises \<open>SyntaxError\<close>),
  \<open>analyze_test_file\<close> returns the empty list and no error, and the loop over the test
  files gives what it gives without that file.
\<close>

theorem syntax_error_file_skipped:
  assumes "ast_parse (read_text f) = Inl SyntaxError"
  shows "analyze_test_file ast_parse f (read_text f) = Inr [] \<and>
         analyze_files ast_parse read_text (pre @ f # post) =
           analyze_files ast_parse read_text (pre @ post)"
  using assms
  by (auto simp: analyze_files_append analyze_test_file_def and_then_def split: sum.splits)

theorem syntax_error_file_skipped_witness:
  "analyze_test_file
     (\<lambda>s. if s = ''def test_a(:'' then Inl SyntaxError else Inr [FunctionDef ''test_b'' 1 [] [Pass]])
     [''tests'', ''test_a.py'']
     ((\<lambda>p. if p = [''tests'', ''test_a.py''] then ''def test_a(:'' else ''def test_b(): pass'')
        [''tests'', ''test_a.py'']) = Inr [] \<and>
   analyze_files
     (\<lambda>s. if s = ''def test_a(:'' then Inl SyntaxError else Inr [FunctionDef ''test_b'' 1 [] [Pass]])
     (\<lambda>p. if p = [''tests'', ''test_a.py''] then ''def test_a(:'' else ''def test_b(): pass'')
     ([] @ [''tests'', ''test_a.py''] # [[''tests'', ''test_b.py'']]) =
   analyze_files
     (\<lambda>s. if s = ''def test_a(:'' then Inl SyntaxError else Inr [FunctionDef ''test_b'' 1 [] [Pass]])
     (\<lambda>p. if p = [''tests'', ''test_a.py''] then ''def test_a(:'' else ''def test_b(): pass'')
     ([] @ [[''tests'', ''test_b.py'']])"
  by (rule syntax_error_file_skipped) simp

section \<open>Properties of the reconciler and of the exit status\<close>

lemma run_audit_fields:
  assumes "run_audit prd plan ast_parse read_text test_files = Inr result"
  shows "\<exists>ts. analyze_files ast_parse read_text test_files = Inr ts \<and>
           result = reconcile (case prd of None \<Rightarrow> [] | Some content \<Rightarrow> parse_prd content)
                              (case plan of None \<Rightarrow> [] | Some content \<Rightarrow> parse_plan content) ts"
  using assms by (auto simp: run_audit_def and_then_def Let_def split: sum.splits)

text \<open>
  C3. In the result of an audit, a requirement id of the requirements mapping is in
  \<open>no_test_coverage\<close> if and only if no test record declares it among its
  \<open>requirement_ids\<close>; and \<open>no_test_coverage\<close> holds ids of that mapping only.
\<close>

theorem coverage_join:
  assumes "run_audit prd plan ast_parse read_text test_files = Inr result"
  shows "(\<forall>R \<in> set (dict_keys (requirements result)).
            R \<in> set (no_test_coverage result) \<longleftrightarrow>
            (\<forall>t \<in> set (tests result). CStr R \<notin> set (requirement_ids t))) \<and>
         set (no_test_coverage result) \<subseteq> set (dict_keys (requirements result))"
proof -
  from run_audit_fields [OF assms] obtain ts reqs items where
    r: "result = reconcile reqs items ts" by blast
  show ?thesis
    unfolding r by (auto simp: reconcile_def Let_def)
qed

theorem coverage_join_witness:
  "(case run_audit
           (Some (''- **FR-1**: parse the input'' @ [newline] @ ''- **FR-2**: print the result''))
           (Some ''- [ ] **FR-1**: write the parser'')
           (\<lambda>s. Inr [FunctionDef ''test_parse'' 4
                        [Call (Attribute (Attribute (Node ''Name'' []) ''mark'') ''requirement'')
                           [Constant (CStr ''FR-1'')] []]
                        [Assert (Node ''Name'' []) None]])
           (\<lambda>p. ''source of the test file'')
           [[''home'', ''demo'', ''tests'', ''test_parse.py'']] of
      Inl e \<Rightarrow> False
    | Inr result \<Rightarrow>
        ''FR-2'' \<in> set (no_test_coverage result) \<and> ''FR-1'' \<notin> set (no_test_coverage result))"
proof -
  let ?run = "run_audit
           (Some (''- **FR-1**: parse the input'' @ [newline] @ ''- **FR-2**: print the result''))
           (Some ''- [ ] **FR-1**: write the parser'')
           (\<lambda>s. Inr [FunctionDef ''test_parse'' 4
                        [Call (Attribute (Attribute (Node ''Name'' []) ''mark'') ''requirement'')
                           [Constant (CStr ''FR-1'')] []]
                        [Assert (Node ''Name'' []) None]])
           (\<lambda>p. ''source of the test file'')
           [[''home'', ''demo'', ''tests'', ''test_parse.py'']]"
  obtain result where run: "?run = Inr result"
    and keys: "dict_keys (requirements result) = [''FR-1'', ''FR-2'']"
    and ts: "map requirement_ids (tests result) = [[CStr ''FR-1'']]"
  proof -
    have "case ?run of Inl e \<Rightarrow> False
          | Inr result \<Rightarrow> dict_keys (requirements result) = [''FR-1'', ''FR-2''] \<and>
                          map requirement_ids (tests result) = [[CStr ''FR-1'']]"
      by code_simp
    then show ?thesis
      using that by (cases ?run) auto
  qed
  have t: "\<forall>t \<in> set (tests result). requirement_ids t = [CStr ''FR-1'']"
    using ts by (cases "tests result") auto
  from coverage_join [OF run] keys t
  have "''FR-2'' \<in> set (no_test_coverage result) \<and> ''FR-1'' \<notin> set (no_test_coverage result)"
    using ts by (cases "tests result") auto
  then show ?thesis
    unfolding run by simp
qed

text \<open>
  C2. When \<open>main\<close> has run the audit and written the report, the exit status it returns
  is 0 exactly when \<open>prd_not_in_plan\<close>, \<open>plan_not_in_prd\<close>, \<open>suspect_tests\<close> and
  \<open>completion_issues\<close> of the audit result are all empty; \<open>no_test_coverage\<close> is not
  counted. The total that the report displays (its line 14, right after the summary) counts
  all five. So a run in which only \<open>no_test_coverage\<close> is not empty ends with exit
  status 0 and a report that displays a total above zero.
\<close>

theorem exit_status_excludes_coverage:
  assumes "main prd plan ast_parse read_text project_root test_files = Inr (Some report, status)"
  shows "\<exists>r ls.
           run_audit prd plan ast_parse read_text test_files = Inr r \<and>
           report_lines r project_root = Inr ls \<and> report = join [newline] ls \<and>
           (status = 0 \<longleftrightarrow>
              length (prd_not_in_plan r) + length (plan_not_in_prd r) +
              length (suspect_tests r) + length (completion_issues r) = 0) \<and>
           ls ! 13 = total_line r \<and>
           report_total_issues r =
              length (prd_not_in_plan r) + length (plan_not_in_prd r) +
              length (suspect_tests r) + length (completion_issues r) +
              length (no_test_coverage r) \<and>
           total_line r =
              (if report_total_issues r = 0 then ''**No issues found.**''
               else ''**Total issues found: '' @ str_nat (report_total_issues r) @ ''**'') \<and>
           (prd_not_in_plan r = [] \<and> plan_not_in_prd r = [] \<and> suspect_tests r = [] \<and>
            completion_issues r = [] \<and> no_test_coverage r \<noteq> [] \<longrightarrow>
              status = 0 \<and> 0 < report_total_issues r \<and>
              ls ! 13 = ''**Total issues found: '' @ str_nat (length (no_test_coverage r)) @ ''**'')"
proof -
  from assms obtain r where run: "run_audit prd plan ast_parse read_text test_files = Inr r"
    and gen: "generate_report r project_root = Inr report"
    and st: "status = exit_status r"
    by (auto simp: main_def and_then_def split: if_splits sum.splits)
  from gen obtain ls where ls: "report_lines r project_root = Inr ls"
    and rep: "report = join [newline] ls"
    by (auto simp: generate_report_def and_then_def split: sum.splits)
  from ls obtain rest where "ls = summary_lines r project_root @ [total_line r] @ rest"
    by (auto simp: report_lines_def and_then_def split: sum.splits)
  moreover have "length (summary_lines r project_root) = 13"
    by (simp add: summary_lines_def)
  ultimately have l13: "ls ! 13 = total_line r"
    by (simp add: nth_append)
  have a: "status = 0 \<longleftrightarrow>
      length (prd_not_in_plan r) + length (plan_not_in_prd r) +
      length (suspect_tests r) + length (completion_issues r) = 0"
    by (simp add: st exit_status_def Let_def)
  have b: "report_total_issues r =
      length (prd_not_in_plan r) + length (plan_not_in_prd r) +
      length (suspect_tests r) + length (completion_issues r) + length (no_test_coverage r)"
    by (simp add: report_total_issues_def)
  have c: "total_line r =
      (if report_total_issues r = 0 then ''**No issues found.**''
       else ''**Total issues found: '' @ str_nat (report_total_issues r) @ ''**'')"
    by (simp add: total_line_def Let_def)
  have d: "prd_not_in_plan r = [] \<and> plan_not_in_prd r = [] \<and> suspect_tests r = [] \<and>
      completion_issues r = [] \<and> no_test_coverage r \<noteq> [] \<longrightarrow>
        status = 0 \<and> 0 < report_total_issues r \<and>
        ls ! 13 = ''**Total issues found: '' @ str_nat (length (no_test_coverage r)) @ ''**''"
    by (simp add: l13 st exit_status_def report_total_issues_def total_line_def Let_def)
  from run ls rep a l13 b c d show ?thesis by blast
qed

theorem exit_status_excludes_coverage_witness:
  "(\<exists>report ls.
      main (Some demo_prd) (Some demo_plan) (\<lambda>s. Inr []) (\<lambda>p. []) demo_root [] =
        Inr (Some report, 0) \<and>
      report = join [newline] ls \<and> ls ! 13 = ''**Total issues found: 1**'') \<and>
   (\<exists>report ls.
      main (Some demo_prd) (Some demo_plan) demo_ast_parse demo_read_text demo_root
          [demo_a, demo_b] =
        Inr (Some report, 1) \<and>
      report = join [newline] ls \<and> ls ! 13 = ''**Total issues found: 3**'')"
proof -
  have n: "str_nat (Suc 0) = ''1''" "str_nat 3 = ''3''"
    by code_simp+
  have first: "\<exists>report ls.
      main (Some demo_prd) (Some demo_plan) (\<lambda>s. Inr []) (\<lambda>p. []) demo_root [] =
        Inr (Some report, 0) \<and>
      report = join [newline] ls \<and> ls ! 13 = ''**Total issues found: 1**''"
  proof -
    let ?main = "main (Some demo_prd) (Some demo_plan) (\<lambda>s. Inr []) (\<lambda>p. []) demo_root []"
    let ?run = "run_audit (Some demo_prd) (Some demo_plan) (\<lambda>s. Inr []) (\<lambda>p. []) []"
    have "case ?main of Inr (Some report, status) \<Rightarrow> True | _ \<Rightarrow> False"
      by code_simp
    then obtain report status where m: "?main = Inr (Some report, status)"
      by (auto split: sum.splits option.splits)
    have e: "case ?run of Inl e \<Rightarrow> False
          | Inr r \<Rightarrow> prd_not_in_plan r = [] \<and> plan_not_in_prd r = [] \<and> suspect_tests r = [] \<and>
                     completion_issues r = [] \<and> no_test_coverage r = [''FR-1'']"
      by code_simp
    from exit_status_excludes_coverage [OF m] obtain r ls where
      run: "?run = Inr r" and rep: "report = join [newline] ls"
      and only: "prd_not_in_plan r = [] \<and> plan_not_in_prd r = [] \<and> suspect_tests r = [] \<and>
            completion_issues r = [] \<and> no_test_coverage r \<noteq> [] \<longrightarrow>
              status = 0 \<and> 0 < report_total_issues r \<and>
              ls ! 13 = ''**Total issues found: '' @ str_nat (length (no_test_coverage r)) @ ''**''"
      by blast
    from e run only n have "status = 0 \<and> ls ! 13 = ''**Total issues found: 1**''"
      by simp
    with m rep show ?thesis by blast
  qed
  have second: "\<exists>report ls.
      main (Some demo_prd) (Some demo_plan) demo_ast_parse demo_read_text demo_root
          [demo_a, demo_b] =
        Inr (Some report, 1) \<and>
      report = join [newline] ls \<and> ls ! 13 = ''**Total issues found: 3**''"
  proof -
    let ?main = "main (Some demo_prd) (Some demo_plan) demo_ast_parse demo_read_text demo_root
          [demo_a, demo_b]"
    let ?run = "run_audit (Some demo_prd) (Some demo_plan) demo_ast_parse demo_read_text
          [demo_a, demo_b]"
    have "case ?main of Inr (Some report, status) \<Rightarrow> status \<le> 1 | _ \<Rightarrow> False"
      by code_simp
    then obtain report status where m: "?main = Inr (Some report, status)" and le: "status \<le> 1"
      by (auto split: sum.splits option.splits)
    have e: "case ?run of Inl e \<Rightarrow> False
          | Inr r \<Rightarrow> length (prd_not_in_plan r) = 0 \<and> length (plan_not_in_prd r) = 0 \<and>
                     length (suspect_tests r) = 2 \<and> length (completion_issues r) = 0 \<and>
                     length (no_test_coverage r) = 1"
      by code_simp
    from exit_status_excludes_coverage [OF m] obtain r ls where
      run: "?run = Inr r" and rep: "report = join [newline] ls"
      and iff: "status = 0 \<longleftrightarrow>
              length (prd_not_in_plan r) + length (plan_not_in_prd r) +
              length (suspect_tests r) + length (completion_issues r) = 0"
      and l13: "ls ! 13 = total_line r"
      and tot: "report_total_issues r =
              length (prd_not_in_plan r) + length (plan_not_in_prd r) +
              length (suspect_tests r) + length (completion_issues r) +
              length (no_test_coverage r)"
      and line: "total_line r =
              (if report_total_issues r = 0 then ''**No issues found.**''
               else ''**Total issues found: '' @ str_nat (report_total_issues r) @ ''**'')"
      by blast
    from e run have cnt: "length (prd_not_in_plan r) = 0 \<and> length (plan_not_in_prd r) = 0 \<and>
                     length (suspect_tests r) = 2 \<and> length (completion_issues r) = 0 \<and>
                     length (no_test_coverage r) = 1"
      by simp
    from cnt tot have t3: "report_total_issues r = 3" by simp
    from iff cnt le have "status = 1" by simp
    moreover from l13 line t3 n have "ls ! 13 = ''**Total issues found: 3**''" by simp
    ultimately show ?thesis using m rep by blast
  qed
  from first second show ?thesis by blast
qed

section \<open>Dictionaries\<close>

lemma map_of_dict_set: "map_of (dict_set d k v) = (map_of d)(k \<mapsto> v)"
  by (induction d) auto

lemma dict_get_dict_set: "dict_get (dict_set d k v) k' = (if k' = k then Some v else dict_get d k')"
  by (simp add: dict_get_def map_of_dict_set)

lemma dict_get_fold_set:
  "dict_get (fold (\<lambda>k d. dict_set d k (f k)) ks d) k' =
     (if k' \<in> set ks then Some (f k') else dict_get d k')"
  by (induction ks arbitrary: d) (auto simp: dict_get_dict_set)

section \<open>Properties of the requirement extractor\<close>

lemma prd_step_definition:
  "prd_step i line reqs =
     (case prd_definition line of
        None \<Rightarrow> reqs
      | Some (rid, text) \<Rightarrow> dict_set reqs rid \<lparr>r_id = rid, r_text = text, r_line_number = i\<rparr>)"
  by (simp add: prd_step_def prd_definition_def split: option.splits)

lemma prd_loop_append:
  "prd_loop i (xs @ ys) reqs = prd_loop (i + length xs) ys (prd_loop i xs reqs)"
  by (induction xs arbitrary: i reqs) auto

lemma prd_loop_keeps:
  assumes "\<forall>p \<in> set post. \<forall>t. prd_definition p \<noteq> Some (rid, t)"
  shows "dict_get (prd_loop i post reqs) rid = dict_get reqs rid"
  using assms
proof (induction post arbitrary: i reqs)
  case Nil
  then show ?case by simp
next
  case (Cons p post)
  have "dict_get (prd_step i p reqs) rid = dict_get reqs rid"
    using Cons.prems
    by (auto simp: prd_step_definition dict_get_dict_set split: option.splits)
  with Cons show ?case by simp
qed

text \<open>
  C9. When a line of the requirements document defines an id, by any of the three forms,
  and no later line defines the same id, then the mapping holds for that id the text and
  the line number of that line, whatever the earlier lines defined: the last occurrence
  wins and nothing is merged.
\<close>

theorem prd_last_wins:
  assumes "prd_definition l = Some (rid, text)"
      and "\<forall>p \<in> set post. \<forall>t. prd_definition p \<noteq> Some (rid, t)"
  shows "dict_get (parse_prd_lines (pre @ l # post)) rid =
           Some \<lparr>r_id = rid, r_text = text, r_line_number = length pre + 1\<rparr>"
proof -
  have "dict_get (prd_step (1 + length pre) l (prd_loop 1 pre [])) rid =
          Some \<lparr>r_id = rid, r_text = text, r_line_number = length pre + 1\<rparr>"
    using assms(1) by (simp add: prd_step_definition dict_get_dict_set)
  then show ?thesis
    using prd_loop_keeps [OF assms(2)]
    by (simp add: parse_prd_lines_def prd_loop_append)
qed

theorem prd_last_wins_witness:
  "dict_get (parse_prd_lines
       ([''- **FR-1**: first wording'', ''| FR-1 | second wording | high |''] @
        ''### FR-1: third wording'' # [''- **FR-2**: other'', ''some prose''])) ''FR-1'' =
     Some \<lparr>r_id = ''FR-1'', r_text = ''third wording'', r_line_number = 3\<rparr>"
proof -
  have d3: "prd_definition ''### FR-1: third wording'' = Some (''FR-1'', ''third wording'')"
    by code_simp
  have d4: "prd_definition ''- **FR-2**: other'' = Some (''FR-2'', ''other'')"
    by code_simp
  have d5: "prd_definition ''some prose'' = None"
    by code_simp
  show ?thesis
    using prd_last_wins [of "''### FR-1: third wording''" "''FR-1''" "''third wording''"
        "[''- **FR-2**: other'', ''some prose'']"
        "[''- **FR-1**: first wording'', ''| FR-1 | second wording | high |'']"]
    by (simp add: d3 d4 d5)
qed

section \<open>Properties of the plan extractor\<close>

lemma dict_get_mark_incomplete:
  "dict_get (mark_incomplete r d) k =
     (if k = r then map_option (\<lambda>item. item\<lparr>completed := False\<rparr>) (dict_get d k)
      else dict_get d k)"
  by (auto simp: mark_incomplete_def dict_get_dict_set split: option.splits)

lemma dict_get_revoke_section:
  "dict_get (revoke_section rs d) k =
     (if k \<in> set rs then map_option (\<lambda>item. item\<lparr>completed := False\<rparr>) (dict_get d k)
      else dict_get d k)"
  unfolding revoke_section_def
proof (induction rs arbitrary: d)
  case Nil
  then show ?case by simp
next
  case (Cons r rs)
  show ?case
    by (cases "dict_get d k") (auto simp: Cons.IH dict_get_mark_incomplete)
qed

lemma plan_loop_append:
  "plan_loop lines i (xs @ ys) st = plan_loop lines (i + length xs) ys (plan_loop lines i xs st)"
  by (induction xs arbitrary: i st) auto

lemma plan_step_heading:
  assumes "heading_line line = Some text"
  shows "plan_step lines i line st =
           (let ids = findall False REQ_ID_PATTERN text
            in if ids \<noteq> []
               then (fold (\<lambda>req_id d. dict_set d req_id
                             \<lparr>item_id = req_id, item_text = ''Section: '' @ text, completed = True,
                              item_line_number = i, test_refs = []\<rparr>) ids (fst st), ids)
               else (fst st, []))"
  using assms
  by (cases st) (auto simp: plan_step_def heading_line_def Let_def split: option.splits)

lemma plan_step_strict:
  assumes "strict_task_line line = Some (status, rid, text)"
  shows "plan_step lines i line st =
           (dict_set (if lower status \<noteq> ''x'' then revoke_section (snd st) (fst st) else fst st) rid
              \<lparr>item_id = rid, item_text = text, completed = (lower status = ''x''),
               item_line_number = i, test_refs = find_test_refs lines i\<rparr>, snd st)"
  using assms
  by (cases st) (auto simp: plan_step_def strict_task_line_def heading_line_def Let_def
      split: option.splits if_splits)

lemma plan_step_loose:
  assumes "loose_task_line line = Some (status, text)"
  shows "plan_step lines i line st =
           (fold (\<lambda>req_id d. dict_set d req_id
                    \<lparr>item_id = req_id, item_text = text, completed = (lower status = ''x''),
                     item_line_number = i, test_refs = find_test_refs lines i\<rparr>)
              (findall False REQ_ID_PATTERN text)
              (if lower status \<noteq> ''x'' then revoke_section (snd st) (fst st) else fst st), snd st)"
  using assms
  by (cases st) (auto simp: plan_step_def loose_task_line_def strict_task_line_def heading_line_def Let_def
      split: option.splits if_splits)

lemma plan_step_passive:
  assumes "no_heading_no_task line" and "dict_get items k = Some v"
  shows "dict_get (fst (plan_step lines i line (items, cur))) k = Some v"
  using assms
  by (auto simp: plan_step_def no_heading_no_task_def loose_task_line_def strict_task_line_def
      heading_line_def Let_def map_of_dict_set dict_has_def dict_get_def
      split: option.splits if_splits)

text \<open>The checkbox states that count as complete.\<close>

lemma code_lt: "code c < 256"
  unfolding code_def by (metis of_char_mod_256 mod_less_divisor zero_less_numeral)

lemma code_inj: "code c = code d \<Longrightarrow> c = d"
  unfolding code_def by (simp add: of_char_eq_iff)

lemma code_x: "code CHR ''x'' = 120" "code CHR ''X'' = 88"
  by (simp_all add: code_def)

lemma lower_char_x: "lower_char c = CHR ''x'' \<longleftrightarrow> c = CHR ''x'' \<or> c = CHR ''X''"
proof
  assume a: "lower_char c = CHR ''x''"
  then have "code (lower_char c) = 120" by (simp add: code_x)
  then have "code c = 120 \<or> code c = 88"
    using code_lt [of c]
    by (auto simp: lower_char_def Let_def code_def split: if_splits)
  then show "c = CHR ''x'' \<or> c = CHR ''X''"
    using code_inj [of c "CHR ''x''"] code_inj [of c "CHR ''X''"] by (auto simp: code_x)
next
  assume "c = CHR ''x'' \<or> c = CHR ''X''"
  moreover have "char_of (120::nat) = CHR ''x''"
    by (rule code_inj) (simp add: code_def)
  ultimately show "lower_char c = CHR ''x''"
    by (auto simp: lower_char_def Let_def code_def)
qed

lemma lower_x: "lower s = ''x'' \<longleftrightarrow> s = ''x'' \<or> s = ''X''"
proof (cases s)
  case Nil
  then show ?thesis by (simp add: lower_def)
next
  case (Cons c cs)
  then show ?thesis by (cases cs) (auto simp: lower_def lower_char_x)
qed

lemma plan_step_passive_section:
  assumes "no_heading_no_task line"
  shows "snd (plan_step lines i line st) = snd st"
  using assms
  by (cases st)
     (auto simp: plan_step_def no_heading_no_task_def loose_task_line_def strict_task_line_def
        heading_line_def Let_def split: option.splits if_splits)

lemma plan_step_section:
  "snd (plan_step lines i line st) =
     (case heading_line line of
        Some htext \<Rightarrow> findall False REQ_ID_PATTERN htext
      | None \<Rightarrow> snd st)"
proof (cases "heading_line line")
  case (Some htext)
  then show ?thesis
    by (simp add: plan_step_heading [OF Some] Let_def)
next
  case no_heading: None
  show ?thesis
  proof (cases "strict_task_line line")
    case (Some s)
    obtain status other desc where s: "s = (status, other, desc)"
      by (cases s)
    show ?thesis
      using no_heading by (simp add: plan_step_strict [OF Some [unfolded s]])
  next
    case no_strict: None
    show ?thesis
    proof (cases "loose_task_line line")
      case (Some l)
      obtain status desc where l: "l = (status, desc)"
        by (cases l)
      show ?thesis
        using no_heading by (simp add: plan_step_loose [OF Some [unfolded l]])
    next
      case None
      with no_heading no_strict have "no_heading_no_task line"
        by (simp add: no_heading_no_task_def)
      from plan_step_passive_section [OF this] no_heading show ?thesis
        by simp
    qed
  qed
qed

lemma plan_loop_section:
  "snd (plan_loop lines i xs st) = section_after (snd st) xs"
  by (induction xs arbitrary: i st) (simp_all add: plan_step_section)

lemma plan_step_leaves:
  assumes "leaves_item rid (snd st) (line # rest)" and "dict_get (fst st) rid = Some v"
  shows "dict_get (fst (plan_step lines i line st)) rid = Some v"
proof (cases "heading_line line")
  case (Some htext)
  then show ?thesis
    using assms
    by (simp add: plan_step_heading [OF Some] Let_def dict_get_fold_set)
next
  case no_heading: None
  show ?thesis
  proof (cases "strict_task_line line")
    case (Some s)
    obtain status other desc where s: "s = (status, other, desc)"
      by (cases s)
    show ?thesis
      using assms no_heading Some
      by (auto simp: plan_step_strict [OF Some [unfolded s]] s dict_get_dict_set
          dict_get_revoke_section)
  next
    case no_strict: None
    show ?thesis
    proof (cases "loose_task_line line")
      case (Some l)
      obtain status desc where l: "l = (status, desc)"
        by (cases l)
      show ?thesis
        using assms no_heading no_strict Some
        by (auto simp: plan_step_loose [OF Some [unfolded l]] l dict_get_fold_set
            dict_get_revoke_section)
    next
      case None
      with no_heading no_strict have "no_heading_no_task line"
        by (simp add: no_heading_no_task_def)
      from plan_step_passive [OF this, of "fst st" rid v lines i "snd st"] assms(2)
      show ?thesis by simp
    qed
  qed
qed

lemma leaves_item_rest:
  assumes "leaves_item rid cur (line # rest)"
  shows "leaves_item rid
           (case heading_line line of
              Some htext \<Rightarrow> findall False REQ_ID_PATTERN htext
            | None \<Rightarrow> cur) rest"
  using assms by (auto split: option.splits)

lemma plan_loop_leaves:
  assumes "leaves_item rid (snd st) post" and "dict_get (fst st) rid = Some v"
  shows "dict_get (fst (plan_loop lines i post st)) rid = Some v"
  using assms
proof (induction post arbitrary: i st)
  case Nil
  then show ?case by simp
next
  case (Cons l post)
  have a: "dict_get (fst (plan_step lines i l st)) rid = Some v"
    using Cons.prems by (rule plan_step_leaves)
  have b: "leaves_item rid (snd (plan_step lines i l st)) post"
    using leaves_item_rest [OF Cons.prems(1)] by (simp add: plan_step_section)
  from Cons.IH [OF b a] show ?case by simp
qed

text \<open>
  C4, as the specification states it: in every plan that contains a table row with status
  Pending and a strict task line with checkbox \<open>[x]\<close> for the same id, the final PlanItem of
  the id has \<open>completed = True\<close>. This plan contains both, one of each, and an unchecked
  task follows in the section of the id: the final PlanItem is the one of the task line,
  marked incomplete.
\<close>

theorem task_line_wins_counterexample:
  "table_row_line ''| FR-1 | Pending |'' = Some (''FR-1'', ''pending'') \<and>
   strict_task_line ''- [x] **FR-1**: do it'' = Some (''x'', ''FR-1'', ''do it'') \<and>
   dict_get (parse_plan_lines
      [''## Parser (FR-1)'', ''| FR-1 | Pending |'', ''- [x] **FR-1**: do it'',
       ''- [ ] update the docs'']) ''FR-1'' =
     Some \<lparr>item_id = ''FR-1'', item_text = ''do it'', completed = False,
           item_line_number = 3, test_refs = []\<rparr>"
  by code_simp

text \<open>
  C4, amended. Take a plan with a strict task line for an id with checkbox \<open>[x]\<close> (or
  \<open>[X]\<close>) and a table row for the same id with status Pending, before or after the task
  line, in which the lines after the task line leave the item alone: no heading embeds
  the id, no task line names it, and no task line is unchecked while the id is in the
  current section. Then the final PlanItem of the id is the one built from the task line:
  its text, \<open>completed = True\<close>, its line number and its test references. Whether the
  table row comes first or last makes no difference to that: a table row only fills a
  gap, a task line overwrites.
\<close>

theorem task_line_wins_over_table_row:
  assumes "strict_task_line task = Some (status, rid, desc)"
      and "status = ''x'' \<or> status = ''X''"
      and "table_row_line row = Some (rid, ''pending'')"
      and "row \<in> set pre \<or> row \<in> set post"
      and "leaves_item rid (section_after [] pre) post"
      and "lines = pre @ task # post"
  shows "dict_get (parse_plan_lines lines) rid =
           Some \<lparr>item_id = rid, item_text = desc, completed = True,
                 item_line_number = length pre + 1,
                 test_refs = find_test_refs lines (length pre + 1)\<rparr>"
proof -
  have x: "lower status = ''x''"
    using assms(2) by (simp add: lower_x)
  let ?st = "plan_step lines (1 + length pre) task (plan_loop lines 1 pre ([], []))"
  have "heading_line task = None"
    using assms(1) by (auto simp: strict_task_line_def split: if_splits)
  then have "snd ?st = section_after [] pre"
    by (simp add: plan_step_section plan_loop_section)
  with assms(5) have safe: "leaves_item rid (snd ?st) post"
    by simp
  have "dict_get (fst ?st) rid =
          Some \<lparr>item_id = rid, item_text = desc, completed = True,
                item_line_number = 1 + length pre,
                test_refs = find_test_refs lines (1 + length pre)\<rparr>"
    by (simp add: plan_step_strict [OF assms(1)] dict_get_dict_set x)
  with safe have "dict_get (fst (plan_loop lines (2 + length pre) post ?st)) rid =
          Some \<lparr>item_id = rid, item_text = desc, completed = True,
                item_line_number = 1 + length pre,
                test_refs = find_test_refs lines (1 + length pre)\<rparr>"
    by (rule plan_loop_leaves)
  then show ?thesis
    by (simp add: parse_plan_lines_def assms(6) plan_loop_append add.commute)
qed

theorem task_line_wins_over_table_row_witness:
  "dict_get (parse_plan_lines
      [''## Printer (FR-2)'', ''| FR-1 | Pending | parser |'', ''- [x] **FR-1**: do it'',
       ''- [ ] **FR-2**: print it'', '''']) ''FR-1'' =
     Some \<lparr>item_id = ''FR-1'', item_text = ''do it'', completed = True,
           item_line_number = 3, test_refs = []\<rparr> \<and>
   dict_get (parse_plan_lines
      [''## Printer (FR-2)'', ''- [x] **FR-1**: do it'', ''| FR-1 | Pending | parser |'',
       ''- [ ] **FR-2**: print it'', '''']) ''FR-1'' =
     Some \<lparr>item_id = ''FR-1'', item_text = ''do it'', completed = True,
           item_line_number = 2, test_refs = []\<rparr>"
proof -
  have t: "strict_task_line ''- [x] **FR-1**: do it'' = Some (''x'', ''FR-1'', ''do it'')"
    by code_simp
  have r: "table_row_line ''| FR-1 | Pending | parser |'' = Some (''FR-1'', ''pending'')"
    by code_simp
  have s1: "leaves_item ''FR-1''
      (section_after [] [''## Printer (FR-2)'', ''| FR-1 | Pending | parser |''])
      [''- [ ] **FR-2**: print it'', '''']"
    by code_simp
  have s2: "leaves_item ''FR-1'' (section_after [] [''## Printer (FR-2)''])
      [''| FR-1 | Pending | parser |'', ''- [ ] **FR-2**: print it'', '''']"
    by code_simp
  have f1: "find_test_refs
      [''## Printer (FR-2)'', ''| FR-1 | Pending | parser |'', ''- [x] **FR-1**: do it'',
       ''- [ ] **FR-2**: print it'', ''''] (Suc (Suc (Suc 0))) = []"
    by code_simp
  have f2: "find_test_refs
      [''## Printer (FR-2)'', ''- [x] **FR-1**: do it'', ''| FR-1 | Pending | parser |'',
       ''- [ ] **FR-2**: print it'', ''''] (Suc (Suc 0)) = []"
    by code_simp
  have a: "dict_get (parse_plan_lines
      [''## Printer (FR-2)'', ''| FR-1 | Pending | parser |'', ''- [x] **FR-1**: do it'',
       ''- [ ] **FR-2**: print it'', '''']) ''FR-1'' =
     Some \<lparr>item_id = ''FR-1'', item_text = ''do it'', completed = True,
           item_line_number = 3, test_refs = []\<rparr>"
    using task_line_wins_over_table_row
      [where task = "''- [x] **FR-1**: do it''" and status = "''x''" and rid = "''FR-1''"
         and desc = "''do it''" and row = "''| FR-1 | Pending | parser |''"
         and pre = "[''## Printer (FR-2)'', ''| FR-1 | Pending | parser |'']"
         and post = "[''- [ ] **FR-2**: print it'', '''']", OF t _ r _ s1]
    by (simp add: f1)
  have b: "dict_get (parse_plan_lines
      [''## Printer (FR-2)'', ''- [x] **FR-1**: do it'', ''| FR-1 | Pending | parser |'',
       ''- [ ] **FR-2**: print it'', '''']) ''FR-1'' =
     Some \<lparr>item_id = ''FR-1'', item_text = ''do it'', completed = True,
           item_line_number = 2, test_refs = []\<rparr>"
    using task_line_wins_over_table_row
      [where task = "''- [x] **FR-1**: do it''" and status = "''x''" and rid = "''FR-1''"
         and desc = "''do it''" and row = "''| FR-1 | Pending | parser |''"
         and pre = "[''## Printer (FR-2)'']"
         and post = "[''| FR-1 | Pending | parser |'', ''- [ ] **FR-2**: print it'', '''']",
         OF t _ r _ s2]
    by (simp add: f2)
  from a b show ?thesis by simp
qed

text \<open>
  C10. A loose task line whose checkbox is neither \<open>x\<close> nor \<open>X\<close> leaves every id of
  \<open>current_section_reqs\<close> that has a PlanItem with \<open>completed = False\<close>. When the line
  holds no requirement id at all, the round does nothing else: the plan items are the old
  ones with the section's items marked incomplete.
\<close>

theorem loose_incomplete_revokes_section:
  assumes "loose_task_line line = Some (status, desc)"
      and "status \<noteq> ''x''" and "status \<noteq> ''X''"
      and "r \<in> set cur"
      and "dict_get items r = Some item"
  shows "(\<exists>item'. dict_get (fst (plan_step lines i line (items, cur))) r = Some item' \<and>
                   \<not> completed item') \<and>
         (findall False REQ_ID_PATTERN desc = [] \<longrightarrow>
            plan_step lines i line (items, cur) = (revoke_section cur items, cur) \<and>
            dict_get (revoke_section cur items) r = Some (item\<lparr>completed := False\<rparr>))"
proof -
  have x: "lower status \<noteq> ''x''"
    using assms(2,3) by (simp add: lower_x)
  show ?thesis
    using assms(4,5) x
    by (simp add: plan_step_loose [OF assms(1)] dict_get_fold_set dict_get_revoke_section)
qed

theorem loose_incomplete_revokes_section_witness:
  "dict_get (fst (plan_step [''## Parser (FR-2)'', ''- [ ] write the docs''] 2 ''- [ ] write the docs''
       ([(''FR-2'', \<lparr>item_id = ''FR-2'', item_text = ''Section: Parser (FR-2)'', completed = True,
                      item_line_number = 1, test_refs = []\<rparr>)], [''FR-2'']))) ''FR-2'' =
     Some \<lparr>item_id = ''FR-2'', item_text = ''Section: Parser (FR-2)'', completed = False,
           item_line_number = 1, test_refs = []\<rparr>"
proof -
  have l: "loose_task_line ''- [ ] write the docs'' = Some ('' '', ''write the docs'')"
    by code_simp
  have f: "findall False REQ_ID_PATTERN ''write the docs'' = []"
    by code_simp
  show ?thesis
    using loose_incomplete_revokes_section
      [where line = "''- [ ] write the docs''" and status = "'' ''" and desc = "''write the docs''"
         and r = "''FR-2''" and cur = "[''FR-2'']"
         and items = "[(''FR-2'', \<lparr>item_id = ''FR-2'', item_text = ''Section: Parser (FR-2)'',
                                    completed = True, item_line_number = 1, test_refs = []\<rparr>)]"
         and item = "\<lparr>item_id = ''FR-2'', item_text = ''Section: Parser (FR-2)'',
                       completed = True, item_line_number = 1, test_refs = []\<rparr>"
         and lines = "[''## Parser (FR-2)'', ''- [ ] write the docs'']" and i = 2]
    by (simp add: l f dict_get_def)
qed

text \<open>
  C5. A heading that embeds a requirement id creates its PlanItem with
  \<open>completed = True\<close>; when the next line is a loose task whose checkbox is neither \<open>x\<close>
  nor \<open>X\<close> and which references the id, the final PlanItem of the id is the one of the
  task line, with \<open>completed = False\<close>. The lines before the heading are arbitrary.
\<close>

theorem incomplete_task_revokes_heading:
  assumes "heading_line h = Some htext"
      and "rid \<in> set (findall False REQ_ID_PATTERN htext)"
      and "loose_task_line t = Some (status, desc)"
      and "status \<noteq> ''x''" and "status \<noteq> ''X''"
      and "rid \<in> set (findall False REQ_ID_PATTERN desc)"
  shows "dict_get (parse_plan_lines (pre @ [h])) rid =
           Some \<lparr>item_id = rid, item_text = ''Section: '' @ htext, completed = True,
                 item_line_number = length pre + 1, test_refs = []\<rparr> \<and>
         dict_get (parse_plan_lines (pre @ [h, t])) rid =
           Some \<lparr>item_id = rid, item_text = desc, completed = False,
                 item_line_number = length pre + 2,
                 test_refs = find_test_refs (pre @ [h, t]) (length pre + 2)\<rparr>"
proof -
  have x: "lower status \<noteq> ''x''"
    using assms(4,5) by (simp add: lower_x)
  have ne: "findall False REQ_ID_PATTERN htext \<noteq> []"
    using assms(2) by auto
  have a: "dict_get (parse_plan_lines (pre @ [h])) rid =
           Some \<lparr>item_id = rid, item_text = ''Section: '' @ htext, completed = True,
                 item_line_number = length pre + 1, test_refs = []\<rparr>"
    using assms(2) ne
    by (simp add: parse_plan_lines_def plan_loop_append plan_step_heading [OF assms(1)]
        dict_get_fold_set Let_def)
  have b: "dict_get (parse_plan_lines (pre @ [h, t])) rid =
           Some \<lparr>item_id = rid, item_text = desc, completed = False,
                 item_line_number = length pre + 2,
                 test_refs = find_test_refs (pre @ [h, t]) (length pre + 2)\<rparr>"
    using assms(6) ne x
    by (simp add: parse_plan_lines_def plan_loop_append plan_step_heading [OF assms(1)]
        plan_step_loose [OF assms(3)] dict_get_fold_set Let_def add.commute)
  from a b show ?thesis by simp
qed

theorem incomplete_task_revokes_heading_witness:
  "dict_get (parse_plan_lines ([] @ [''### Section (FR-2)''])) ''FR-2'' =
     Some \<lparr>item_id = ''FR-2'', item_text = ''Section: Section (FR-2)'', completed = True,
           item_line_number = 1, test_refs = []\<rparr> \<and>
   dict_get (parse_plan_lines ([] @ [''### Section (FR-2)'', ''- [ ] sub-step (FR-2)''])) ''FR-2'' =
     Some \<lparr>item_id = ''FR-2'', item_text = ''sub-step (FR-2)'', completed = False,
           item_line_number = 2, test_refs = []\<rparr>"
proof -
  have h: "heading_line ''### Section (FR-2)'' = Some ''Section (FR-2)''"
    by code_simp
  have hi: "findall False REQ_ID_PATTERN ''Section (FR-2)'' = [''FR-2'']"
    by code_simp
  have l: "loose_task_line ''- [ ] sub-step (FR-2)'' = Some ('' '', ''sub-step (FR-2)'')"
    by code_simp
  have li: "findall False REQ_ID_PATTERN ''sub-step (FR-2)'' = [''FR-2'']"
    by code_simp
  have f: "find_test_refs [''### Section (FR-2)'', ''- [ ] sub-step (FR-2)''] (Suc (Suc 0)) = []"
    by code_simp
  show ?thesis
    using incomplete_task_revokes_heading
      [where h = "''### Section (FR-2)''" and htext = "''Section (FR-2)''" and rid = "''FR-2''"
         and t = "''- [ ] sub-step (FR-2)''" and status = "'' ''" and desc = "''sub-step (FR-2)''"
         and pre = "[]"]
    by (simp add: h hi l li f)
qed

section \<open>The order of the test files\<close>

text \<open>
  C7. The project \<open>/home/demo\<close> has the two test files \<open>tests/test_a.py\<close> and
  \<open>tests/test_b.py\<close>, each with one placeholder test. Both orders of the two files are
  results of \<open>find_test_files\<close>, a report is written for either, and the two reports differ:
  the Suspect Tests section lists the tests in the order of the files.
\<close>

theorem report_depends_on_set_order:
  "find_test_files demo_glob demo_root [demo_a, demo_b] \<and>
   find_test_files demo_glob demo_root [demo_b, demo_a] \<and>
   (case (main (Some demo_prd) (Some demo_plan) demo_ast_parse demo_read_text demo_root
            [demo_a, demo_b],
          main (Some demo_prd) (Some demo_plan) demo_ast_parse demo_read_text demo_root
            [demo_b, demo_a]) of
      (Inr (Some report1, status1), Inr (Some report2, status2)) \<Rightarrow> report1 \<noteq> report2
    | _ \<Rightarrow> False)"
  by code_simp

end
